theory Spec2Isabelle
  imports Main
begin

section \<open>Python strings and dictionaries\<close>

text \<open>
  A Python \<open>str\<close> is modelled as a \<open>string\<close> holding its UTF-8 bytes; the source's
  non-ASCII literals are byte constants. \<open>Dict[str, str]\<close> is an association list read
  with \<open>map_of\<close>, so that \<open>d.get(k)\<close> is \<open>get d k\<close> and a missing key is \<open>None\<close>.
  \<open>str.lower\<close> and \<open>str.strip\<close> are modelled on ASCII letters and ASCII whitespace.
\<close>

type_synonym pydict = "(string \<times> string) list"

definition get :: "pydict \<Rightarrow> string \<Rightarrow> string option" where
  "get d k = map_of d k"

definition lower_char :: "char \<Rightarrow> char" where
  "lower_char c =
     (case map_of (zip ''ABCDEFGHIJKLMNOPQRSTUVWXYZ'' ''abcdefghijklmnopqrstuvwxyz'') c of
        None \<Rightarrow> c
      | Some l \<Rightarrow> l)"

definition lower :: "string \<Rightarrow> string" where
  "lower s = map lower_char s"

text \<open>\<open>sep.join(parts)\<close>.\<close>

fun join :: "string \<Rightarrow> string list \<Rightarrow> string" where
  "join sep [] = []"
| "join sep [x] = x"
| "join sep (x # y # ys) = x @ sep @ join sep (y # ys)"

text \<open>
  \<open>str.strip()\<close>: the whitespace removed at both ends is the ASCII whitespace of
  \<open>str.isspace\<close> (tab, line feed, vertical tab, form feed, carriage return, the four
  separators \<open>0x1C\<close> to \<open>0x1F\<close>, and the space).
\<close>

definition is_space :: "char \<Rightarrow> bool" where
  "is_space c = (c \<in> set [CHR 0x09, CHR 0x0A, CHR 0x0B, CHR 0x0C, CHR 0x0D,
                            CHR 0x1C, CHR 0x1D, CHR 0x1E, CHR 0x1F, CHR 0x20])"

definition strip :: "string \<Rightarrow> string" where
  "strip s = rev (dropWhile is_space (rev (dropWhile is_space s)))"

text \<open>\<open>sub in text\<close>: \<open>sub\<close> occurs in \<open>text\<close> as a contiguous substring.\<close>

fun contains :: "string \<Rightarrow> string \<Rightarrow> bool" where
  "contains sub [] = (sub = [])"
| "contains sub (c # cs) = (take (length sub) (c # cs) = sub \<or> contains sub cs)"

section \<open>JSON values\<close>

text \<open>
  The values \<open>json.loads\<close> returns and \<open>json.dumps\<close> takes. A number keeps its
  text; an object keeps its members in order.
\<close>

datatype json =
    JNull
  | JBool bool
  | JNum string
  | JStr string
  | JArr "json list"
  | JObj "(string \<times> json) list"

text \<open>Python's truth value of such a value (\<open>if v:\<close>, \<open>a or b\<close>).\<close>

fun truthy :: "json \<Rightarrow> bool" where
  "truthy JNull = False"
| "truthy (JBool b) = b"
| "truthy (JNum n) =
     (filter (\<lambda>c. c \<in> set ''123456789'')
        (takeWhile (\<lambda>c. c \<noteq> CHR ''e'' \<and> c \<noteq> CHR ''E'') n) \<noteq> [])"
| "truthy (JStr s) = (s \<noteq> [])"
| "truthy (JArr xs) = (xs \<noteq> [])"
| "truthy (JObj kvs) = (kvs \<noteq> [])"

text \<open>\<open>str(v)\<close> for a value that is neither \<open>None\<close>, a string, a list nor a dict.\<close>

definition py_str :: "json \<Rightarrow> string" where
  "py_str v = (case v of JBool b \<Rightarrow> (if b then ''True'' else ''False'') | JNum n \<Rightarrow> n | _ \<Rightarrow> [])"

text \<open>
  \<open>json.dumps(v, ensure_ascii=False)\<close> with the default separators: a string is quoted
  with the two-character escapes and \<open>\u00XX\<close> for the other control characters.
\<close>

definition hex_digit :: "nat \<Rightarrow> char" where
  "hex_digit n = ''0123456789abcdef'' ! (n mod 16)"

definition escape_char :: "char \<Rightarrow> string" where
  "escape_char c =
     (if c = CHR 0x22 then [CHR 0x5C, CHR 0x22]
      else if c = CHR 0x5C then [CHR 0x5C, CHR 0x5C]
      else if c = CHR 0x0A then [CHR 0x5C, CHR ''n'']
      else if c = CHR 0x0D then [CHR 0x5C, CHR ''r'']
      else if c = CHR 0x09 then [CHR 0x5C, CHR ''t'']
      else if c = CHR 0x08 then [CHR 0x5C, CHR ''b'']
      else if c = CHR 0x0C then [CHR 0x5C, CHR ''f'']
      else if (of_char c :: nat) < 32
        then [CHR 0x5C, CHR ''u'', CHR ''0'', CHR ''0'',
              hex_digit (of_char c div 16), hex_digit (of_char c)]
      else [c])"

definition quote :: "string \<Rightarrow> string" where
  "quote s = [CHR 0x22] @ concat (map escape_char s) @ [CHR 0x22]"

fun dumps :: "json \<Rightarrow> string" where
  "dumps JNull = ''null''"
| "dumps (JBool b) = (if b then ''true'' else ''false'')"
| "dumps (JNum n) = n"
| "dumps (JStr s) = quote s"
| "dumps (JArr xs) = ''['' @ join '', '' (map dumps xs) @ '']''"
| "dumps (JObj kvs) =
     ''{'' @ join '', '' (map (\<lambda>kv. quote (fst kv) @ '': '' @ dumps (snd kv)) kvs) @ ''}''"

section \<open>json.loads\<close>

text \<open>
  The decoder of Python's \<open>json\<close> module on a \<open>str\<close>, in the order of its scanner: a
  string, an object, an array, \<open>null\<close>, \<open>true\<close>, \<open>false\<close>, a number, then \<open>NaN\<close>,
  \<open>Infinity\<close> and \<open>-Infinity\<close>. \<open>None\<close> is \<open>JSONDecodeError\<close>.
\<close>

definition is_json_ws :: "char \<Rightarrow> bool" where
  "is_json_ws c = (c \<in> set [CHR 0x20, CHR 0x09, CHR 0x0A, CHR 0x0D])"

definition skip_ws :: "string \<Rightarrow> string" where
  "skip_ws s = dropWhile is_json_ws s"

definition is_digit :: "char \<Rightarrow> bool" where
  "is_digit c = (c \<in> set ''0123456789'')"

text \<open>\<open>s.startswith(p)\<close>.\<close>

definition startswith :: "string \<Rightarrow> string \<Rightarrow> bool" where
  "startswith s p = (take (length p) s = p)"

subsection \<open>Strings\<close>

text \<open>
  A string body is read up to its closing quote. An item of it is a character taken as
  it stands or the 16-bit unit of a \<open>\uXXXX\<close> escape; a control character is refused
  (the decoder is strict).
\<close>

datatype str_item = Raw char | Unit nat

datatype str_state = Plain | Escape | Hex nat nat

definition simple_escape :: "char \<Rightarrow> char option" where
  "simple_escape c =
     map_of [(CHR 0x22, CHR 0x22), (CHR 0x5C, CHR 0x5C), (CHR ''/'', CHR ''/''),
             (CHR ''b'', CHR 0x08), (CHR ''f'', CHR 0x0C), (CHR ''n'', CHR 0x0A),
             (CHR ''r'', CHR 0x0D), (CHR ''t'', CHR 0x09)] c"

definition hex_value :: "char \<Rightarrow> nat option" where
  "hex_value c =
     map_of (zip ''0123456789abcdef'' [0 ..< 16] @ zip ''ABCDEF'' [10 ..< 16]) c"

fun scan_items :: "str_state \<Rightarrow> str_item list \<Rightarrow> string \<Rightarrow> (str_item list \<times> string) option" where
  "scan_items st acc [] = None"
| "scan_items Plain acc (c # cs) =
     (if c = CHR 0x22 then Some (acc, cs)
      else if c = CHR 0x5C then scan_items Escape acc cs
      else if (of_char c :: nat) < 32 then None
      else scan_items Plain (acc @ [Raw c]) cs)"
| "scan_items Escape acc (c # cs) =
     (if c = CHR ''u'' then scan_items (Hex 0 0) acc cs
      else (case simple_escape c of
              None \<Rightarrow> None
            | Some e \<Rightarrow> scan_items Plain (acc @ [Raw e]) cs))"
| "scan_items (Hex k v) acc (c # cs) =
     (case hex_value c of
        None \<Rightarrow> None
      | Some h \<Rightarrow>
          if k = 3 then scan_items Plain (acc @ [Unit (v * 16 + h)]) cs
          else scan_items (Hex (Suc k) (v * 16 + h)) acc cs)"

text \<open>The UTF-8 bytes of a code point, and of the items (a surrogate pair is one point).\<close>

definition utf8 :: "nat \<Rightarrow> string" where
  "utf8 n =
     (if n < 0x80 then [char_of n]
      else if n < 0x800 then [char_of (0xC0 + n div 64), char_of (0x80 + n mod 64)]
      else if n < 0x10000 then
        [char_of (0xE0 + n div 4096), char_of (0x80 + n div 64 mod 64), char_of (0x80 + n mod 64)]
      else
        [char_of (0xF0 + n div 262144), char_of (0x80 + n div 4096 mod 64),
         char_of (0x80 + n div 64 mod 64), char_of (0x80 + n mod 64)])"

fun decode_items :: "str_item list \<Rightarrow> string" where
  "decode_items [] = []"
| "decode_items (Raw c # xs) = c # decode_items xs"
| "decode_items (Unit hi # Unit lo # xs) =
     (if 0xD800 \<le> hi \<and> hi < 0xDC00 \<and> 0xDC00 \<le> lo \<and> lo < 0xE000
      then utf8 (0x10000 + (hi - 0xD800) * 1024 + (lo - 0xDC00)) @ decode_items xs
      else utf8 hi @ decode_items (Unit lo # xs))"
| "decode_items (Unit u # xs) = utf8 u @ decode_items xs"

definition scanstring :: "string \<Rightarrow> (string \<times> string) option" where
  "scanstring s =
     (case scan_items Plain [] s of
        None \<Rightarrow> None
      | Some (items, rest) \<Rightarrow> Some (decode_items items, rest))"

subsection \<open>Numbers\<close>

text \<open>
  The number pattern \<open>(-?(?:0|[1-9]\d*))(\.\d+)?([eE][-+]?\d+)?\<close> matched at the start
  of the text: the matched text and the rest.
\<close>

definition match_int :: "string \<Rightarrow> (string \<times> string) option" where
  "match_int s =
     (let sign = (if startswith s ''-'' then ''-'' else []);
          r = drop (length sign) s
      in case r of
           [] \<Rightarrow> None
         | c # cs \<Rightarrow>
             if c = CHR ''0'' then Some (sign @ ''0'', cs)
             else if is_digit c then Some (sign @ takeWhile is_digit r, dropWhile is_digit r)
             else None)"

definition match_frac :: "string \<Rightarrow> string \<times> string" where
  "match_frac s =
     (case s of
        c # d # ds \<Rightarrow>
          if c = CHR ''.'' \<and> is_digit d
          then (c # takeWhile is_digit (d # ds), dropWhile is_digit (d # ds))
          else ([], s)
      | _ \<Rightarrow> ([], s))"

definition match_exp :: "string \<Rightarrow> string \<times> string" where
  "match_exp s =
     (case s of
        [] \<Rightarrow> ([], s)
      | c # cs \<Rightarrow>
          if c = CHR ''e'' \<or> c = CHR ''E'' then
            (let sign = (if startswith cs ''-'' then ''-'' else if startswith cs ''+'' then ''+'' else []);
                 r = drop (length sign) cs
             in if r \<noteq> [] \<and> is_digit (hd r)
                then (c # sign @ takeWhile is_digit r, dropWhile is_digit r)
                else ([], s))
          else ([], s))"

definition match_number :: "string \<Rightarrow> (string \<times> string) option" where
  "match_number s =
     (case match_int s of
        None \<Rightarrow> None
      | Some (i, r1) \<Rightarrow>
          (let (f, r2) = match_frac r1; (e, r3) = match_exp r2
           in Some (i @ f @ e, r3)))"

subsection \<open>Values\<close>

text \<open>\<open>d[k] = v\<close> on a dict that keeps insertion order.\<close>

fun dict_set :: "(string \<times> 'v) list \<Rightarrow> string \<Rightarrow> 'v \<Rightarrow> (string \<times> 'v) list" where
  "dict_set [] k v = [(k, v)]"
| "dict_set ((k', v') # d) k v = (if k' = k then (k, v) # d else (k', v') # dict_set d k v)"

text \<open>
  The scanner. The first argument bounds the number of calls still allowed; every call
  but the first follows at least one character read, and a value starts at most two
  calls per character, so \<open>json_loads\<close> gives twice the length of the text and two more.
  \<open>scan_elements\<close> stands before an element of an array, \<open>scan_members\<close> before the
  opening quote of a key.
\<close>

fun scan_once :: "nat \<Rightarrow> string \<Rightarrow> (json \<times> string) option"
and scan_elements :: "nat \<Rightarrow> json list \<Rightarrow> string \<Rightarrow> (json \<times> string) option"
and scan_members :: "nat \<Rightarrow> (string \<times> json) list \<Rightarrow> string \<Rightarrow> (json \<times> string) option"
where
  "scan_once 0 s = None"
| "scan_once (Suc n) [] = None"
| "scan_once (Suc n) (c # cs) =
     (if c = CHR 0x22 then
        (case scanstring cs of None \<Rightarrow> None | Some (str, rest) \<Rightarrow> Some (JStr str, rest))
      else if c = CHR ''{'' then
        (case skip_ws cs of
           [] \<Rightarrow> None
         | d # ds \<Rightarrow>
             if d = CHR ''}'' then Some (JObj [], ds)
             else if d = CHR 0x22 then scan_members n [] (d # ds)
             else None)
      else if c = CHR ''['' then
        (case skip_ws cs of
           [] \<Rightarrow> None
         | d # ds \<Rightarrow> if d = CHR '']'' then Some (JArr [], ds) else scan_elements n [] (d # ds))
      else if startswith (c # cs) ''null'' then Some (JNull, drop 4 (c # cs))
      else if startswith (c # cs) ''true'' then Some (JBool True, drop 4 (c # cs))
      else if startswith (c # cs) ''false'' then Some (JBool False, drop 5 (c # cs))
      else (case match_number (c # cs) of
              Some (num, rest) \<Rightarrow> Some (JNum num, rest)
            | None \<Rightarrow>
                if startswith (c # cs) ''NaN'' then Some (JNum ''NaN'', drop 3 (c # cs))
                else if startswith (c # cs) ''Infinity'' then Some (JNum ''Infinity'', drop 8 (c # cs))
                else if startswith (c # cs) ''-Infinity'' then Some (JNum ''-Infinity'', drop 9 (c # cs))
                else None))"
| "scan_elements 0 acc s = None"
| "scan_elements (Suc n) acc s =
     (case scan_once n s of
        None \<Rightarrow> None
      | Some (v, rest) \<Rightarrow>
          (case skip_ws rest of
             [] \<Rightarrow> None
           | d # ds \<Rightarrow>
               if d = CHR '']'' then Some (JArr (acc @ [v]), ds)
               else if d = CHR '','' then scan_elements n (acc @ [v]) (skip_ws ds)
               else None))"
| "scan_members 0 acc s = None"
| "scan_members (Suc n) acc s =
     (case s of
        [] \<Rightarrow> None
      | q # qs \<Rightarrow>
          if q \<noteq> CHR 0x22 then None
          else
            (case scanstring qs of
               None \<Rightarrow> None
             | Some (key, r1) \<Rightarrow>
                 (case skip_ws r1 of
                    [] \<Rightarrow> None
                  | colon # r2 \<Rightarrow>
                      if colon \<noteq> CHR '':'' then None
                      else
                        (case scan_once n (skip_ws r2) of
                           None \<Rightarrow> None
                         | Some (v, r3) \<Rightarrow>
                             (case skip_ws r3 of
                                [] \<Rightarrow> None
                              | d # ds \<Rightarrow>
                                  if d = CHR ''}'' then Some (JObj (dict_set acc key v), ds)
                                  else if d = CHR '','' then
                                    scan_members n (dict_set acc key v) (skip_ws ds)
                                  else None)))))"

definition json_loads :: "string \<Rightarrow> json option" where
  "json_loads s =
     (case scan_once (2 * length s + 2) (skip_ws s) of
        None \<Rightarrow> None
      | Some (v, rest) \<Rightarrow> if skip_ws rest = [] then Some v else None)"

section \<open>The replies of the backend and their extraction\<close>

text \<open>
  A message of a conversation is a dict with a \<open>role\<close> and a \<open>content\<close>, both strings
  when present. The exceptions of the source are values: \<open>ValueError\<close> is raised by the
  check of a step's argument, \<open>KeyError\<close> by \<open>d[k]\<close> on a missing key, \<open>RuntimeError\<close>
  by the extractors (with the case it reports), and \<open>BackendError\<close> stands for whatever
  the conversation itself raises.
\<close>

type_synonym message = pydict

datatype extraction_failure =
    NoJsonObject
  | MissingFields
  | NoJsonArray
  | NoAssistantOutput

datatype py_error =
    ValueError
  | KeyError string
  | RuntimeError extraction_failure
  | BackendError string

text \<open>
  \<open>[resp.get("content", "") for resp in responses if resp.get("role") == "assistant"]\<close>
\<close>

definition assistant_contents :: "message list \<Rightarrow> string list" where
  "assistant_contents responses =
     map (\<lambda>resp. case get resp ''content'' of None \<Rightarrow> [] | Some c \<Rightarrow> c)
       (filter (\<lambda>resp. get resp ''role'' = Some ''assistant'') responses)"

subsection \<open>examples/analyze\_major\_function.py: extract\_json\_object\<close>

text \<open>
  The loop over \<open>reversed(assistant_contents)\<close>: a text that does not decode is passed
  over, a decoded value that is not a dict as well; the first dict met is returned when
  it has both keys and raises otherwise.
\<close>

fun extract_json_object_loop :: "string list \<Rightarrow> py_error + (string \<times> json) list" where
  "extract_json_object_loop [] = Inl (RuntimeError NoJsonObject)"
| "extract_json_object_loop (raw # raws) =
     (case json_loads raw of
        None \<Rightarrow> extract_json_object_loop raws
      | Some (JObj parsed) \<Rightarrow>
          if map_of parsed ''address'' \<noteq> None \<and> map_of parsed ''func_name'' \<noteq> None
          then Inr parsed
          else Inl (RuntimeError MissingFields)
      | Some _ \<Rightarrow> extract_json_object_loop raws)"

definition extract_json_object :: "message list \<Rightarrow> py_error + (string \<times> json) list" where
  "extract_json_object responses = extract_json_object_loop (rev (assistant_contents responses))"

subsection \<open>examples/analyze\_memory\_param.py: extract\_json\<close>

fun extract_json_loop :: "string list \<Rightarrow> py_error + (string \<times> json) list" where
  "extract_json_loop [] = Inl (RuntimeError NoJsonObject)"
| "extract_json_loop (raw # raws) =
     (case json_loads raw of
        None \<Rightarrow> extract_json_loop raws
      | Some (JObj parsed) \<Rightarrow> Inr parsed
      | Some _ \<Rightarrow> extract_json_loop raws)"

definition extract_json :: "message list \<Rightarrow> py_error + (string \<times> json) list" where
  "extract_json responses = extract_json_loop (rev (assistant_contents responses))"

subsection \<open>examples/list\_subfunctions.py: extract\_json\_array\<close>



subsection \<open>extract\_markdown, the same in every module that returns prose\<close>

definition extract_markdown :: "message list \<Rightarrow> py_error + string" where
  "extract_markdown responses =
     (if assistant_contents responses = [] then Inl (RuntimeError NoAssistantOutput)
      else Inr (strip (last (assistant_contents responses))))"

subsection \<open>examples/find\_iocreatedevice\_refs.py: extract\_json\_result\<close>

text \<open>\<open>_load_json_array\<close>: the decoded value when it is a list.\<close>

definition load_json_array :: "string \<Rightarrow> json list option" where
  "load_json_array text = (case json_loads text of Some (JArr xs) \<Rightarrow> Some xs | _ \<Rightarrow> None)"

text \<open>
  \<open>JSON_BLOCK_RE\<close>, the pattern \<open>```(?:json)?\s*(\[[\s\S]*?\])\s*```\<close> without regard
  to case. \<open>block_close\<close> looks for the nearest \<open>]\<close> that whitespace and a fence follow,
  and gives the group up to it and the number of characters read to the end of the
  fence; \<open>match_block\<close> matches the pattern at the start of a text; \<open>find_blocks k\<close> is
  \<open>findall\<close> after \<open>k\<close> characters to skip, the matches not overlapping.
\<close>

definition fence :: string where
  "fence = [CHR 0x60, CHR 0x60, CHR 0x60]"

fun block_close :: "string \<Rightarrow> string \<Rightarrow> (string \<times> nat) option" where
  "block_close acc [] = None"
| "block_close acc (c # cs) =
     (if c = CHR '']'' \<and> startswith (dropWhile is_space cs) fence
      then Some (acc @ [c], length (acc @ [c]) + length (takeWhile is_space cs) + 3)
      else block_close (acc @ [c]) cs)"

definition match_block :: "string \<Rightarrow> (string \<times> nat) option" where
  "match_block s =
     (if startswith s fence then
        (let s1 = drop 3 s;
             tag = (if lower (take 4 s1) = ''json'' then 4 else 0);
             s2 = drop tag s1;
             s3 = dropWhile is_space s2
         in case s3 of
              [] \<Rightarrow> None
            | c # cs \<Rightarrow>
                if c = CHR ''['' then
                  (case block_close [c] cs of
                     None \<Rightarrow> None
                   | Some (block, n) \<Rightarrow> Some (block, 3 + tag + length (takeWhile is_space s2) + n))
                else None)
      else None)"

fun find_blocks :: "nat \<Rightarrow> string \<Rightarrow> string list" where
  "find_blocks k [] = []"
| "find_blocks (Suc k) (c # cs) = find_blocks k cs"
| "find_blocks 0 (c # cs) =
     (case match_block (c # cs) of
        None \<Rightarrow> find_blocks 0 cs
      | Some (block, n) \<Rightarrow> block # find_blocks (n - 1) cs)"

text \<open>The first block that decodes to a list.\<close>

fun first_array :: "string list \<Rightarrow> json list option" where
  "first_array [] = None"
| "first_array (b # bs) = (case load_json_array b of Some xs \<Rightarrow> Some xs | None \<Rightarrow> first_array bs)"

text \<open>
  \<open>raw[first : last + 1]\<close> for \<open>first = raw.find("[")\<close> and \<open>last = raw.rfind("]")\<close>,
  when both are found and \<open>last > first\<close>.
\<close>

definition bracket_span :: "string \<Rightarrow> string option" where
  "bracket_span raw =
     (let tail = dropWhile (\<lambda>c. c \<noteq> CHR ''['') raw;
          body = rev (dropWhile (\<lambda>c. c \<noteq> CHR '']'') (rev tail))
      in if tail = [] \<or> body = [] then None else Some body)"

fun extract_json_result_loop :: "string list \<Rightarrow> py_error + json list" where
  "extract_json_result_loop [] = Inl (RuntimeError NoJsonArray)"
| "extract_json_result_loop (raw0 # raws) =
     (let raw = strip raw0
      in if raw = [] then extract_json_result_loop raws
         else case load_json_array raw of
                Some parsed \<Rightarrow> Inr parsed
              | None \<Rightarrow>
                  (case first_array (find_blocks 0 raw) of
                     Some parsed \<Rightarrow> Inr parsed
                   | None \<Rightarrow>
                       (case bracket_span raw of
                          None \<Rightarrow> extract_json_result_loop raws
                        | Some span \<Rightarrow>
                            (case load_json_array span of
                               Some parsed \<Rightarrow> Inr parsed
                             | None \<Rightarrow> extract_json_result_loop raws))))"

definition extract_json_result :: "message list \<Rightarrow> py_error + json list" where
  "extract_json_result responses = extract_json_result_loop (rev (assistant_contents responses))"

subsection \<open>The texts of the specification's extraction example\<close>

definition assistant_msg :: "string \<Rightarrow> message" where
  "assistant_msg c = [(''role'', ''assistant''), (''content'', c)]"

definition object_a1 :: string where
  "object_a1 = [CHR ''{'', CHR 0x22, CHR ''a'', CHR 0x22, CHR '':'', CHR ''1'', CHR ''}'']"

definition fenced_a1 :: string where
  "fenced_a1 = ''prefix '' @ fence @ ''json\<newline>'' @ object_a1 @ ''\<newline>'' @ fence @ '' suffix''"

definition noisy_a1 :: string where
  "noisy_a1 = ''noise '' @ object_a1 @ '' noise''"

text \<open>A text that decodes, as a whole, to an object; and that object.\<close>

definition decodes_to_object :: "string \<Rightarrow> bool" where
  "decodes_to_object raw = (case json_loads raw of Some (JObj obj) \<Rightarrow> True | _ \<Rightarrow> False)"

definition object_of :: "string \<Rightarrow> (string \<times> json) list" where
  "object_of raw = (case json_loads raw of Some (JObj obj) \<Rightarrow> obj | _ \<Rightarrow> [])"

section \<open>The backend, the console and the files\<close>

text \<open>
  A step builds its conversation from the name and the address of its target (and, for
  the IRP analysis, the context text), runs it once and reads the last list of messages
  the run yields. The wording of the prompts is left out: a request is the step and
  these arguments, name first. The backend is any function from the requests made so
  far and the present request to the reply, a list of messages or an exception, so that
  the same request may be answered differently each time.
\<close>

datatype request =
    FindRefsReq
  | MajorFunctionReq string string
  | ListSubfunctionsReq string string
  | DescribeExternalReq string string
  | DescribeInternalReq string string
  | MemoryParamReq string string
  | IrpAccessReq string string string

type_synonym backend = "request list \<Rightarrow> request \<Rightarrow> py_error + message list"

datatype event = Print string | Sleep nat

text \<open>
  A record of the cache of descriptions, one line of the JSONL file: the line
  \<open>json.dumps\<close> writes for it is read back by \<open>json.loads\<close> as the same record. A line
  that is blank or does not decode is passed over by \<open>load_cache\<close> and is not represented.
\<close>

record cache_record =
  rec_name :: string
  rec_markdown :: string
  rec_addresses :: "string list"

text \<open>The payload \<open>save_transcript\<close> appends to the log (without its time stamp).\<close>

record transcript =
  t_target :: pydict
  t_messages :: request
  t_responses :: "message list"

text \<open>
  The state outside the program: the requests made to the backend, in order; what was
  printed and slept; the cache file (\<open>None\<close> when it does not exist); the log file.
\<close>

record world =
  requests :: "request list"
  console :: "event list"
  cache_file :: "cache_record list option"
  log_file :: "transcript list"

text \<open>\<open>for final_responses in bot.run(messages=messages): pass\<close>\<close>

definition run_bot :: "backend \<Rightarrow> request \<Rightarrow> world \<Rightarrow> (py_error + message list) \<times> world" where
  "run_bot bk req w = (bk (requests w) req, w\<lparr>requests := requests w @ [req]\<rparr>)"

section \<open>examples/analyze\_major\_function.py: analyze\_major\_function\_target\<close>

definition analyze_major_function_target ::
  "backend \<Rightarrow> pydict \<Rightarrow> world \<Rightarrow> (py_error + (string \<times> json) list) \<times> world" where
  "analyze_major_function_target bk target w =
     (case get target ''address'' of
        None \<Rightarrow> (Inl ValueError, w)
      | Some address \<Rightarrow>
          (case get target ''func_name'' of
             None \<Rightarrow> (Inl ValueError, w)
           | Some func_name \<Rightarrow>
               (case run_bot bk (MajorFunctionReq func_name address) w of
                  (Inl e, w1) \<Rightarrow> (Inl e, w1)
                | (Inr final_responses, w1) \<Rightarrow> (extract_json_object final_responses, w1))))"

section \<open>examples/list\_subfunctions.py: list\_subfunctions\<close>


section \<open>examples/find\_iocreatedevice\_refs.py: find\_iocreatedevice\_refs\<close>







section \<open>examples/describe\_external\_function.py: the cache and describe\_external\_function\<close>

type_synonym cache = "(string \<times> cache_record) list"

text \<open>
  \<open>load_cache\<close>: a record without a name, or with an empty one, is passed over; a later
  record of the same key takes the place of the earlier one. \<open>load_step\<close> is the body of
  the loop over the lines.
\<close>

definition load_step :: "cache \<Rightarrow> cache_record \<Rightarrow> cache" where
  "load_step cache record =
     (if rec_name record = [] then cache
      else dict_set cache (lower (rec_name record)) record)"

definition load_cache :: "world \<Rightarrow> cache" where
  "load_cache w =
     (case cache_file w of
        None \<Rightarrow> []
      | Some records \<Rightarrow> foldl load_step [] records)"

definition write_cache :: "cache \<Rightarrow> world \<Rightarrow> world" where
  "write_cache cache w = w\<lparr>cache_file := Some (map snd cache)\<rparr>"

definition cache_lookup :: "cache \<Rightarrow> string \<Rightarrow> cache_record option" where
  "cache_lookup cache name = map_of cache (lower name)"

definition cache_update ::
  "cache \<Rightarrow> string \<Rightarrow> string \<Rightarrow> string \<Rightarrow> world \<Rightarrow> cache_record \<times> world" where
  "cache_update cache name markdown address w =
     (let key = lower name;
          record0 = (case map_of cache key of
                       None \<Rightarrow> \<lparr>rec_name = name, rec_markdown = markdown, rec_addresses = []\<rparr>
                     | Some r \<Rightarrow> r);
          addresses = (if address \<in> set (rec_addresses record0) then rec_addresses record0
                       else rec_addresses record0 @ [address]);
          record = record0\<lparr>rec_markdown := markdown, rec_addresses := addresses\<rparr>
      in (record, write_cache (dict_set cache key record) w))"

definition describe_external_function ::
  "backend \<Rightarrow> pydict \<Rightarrow> world \<Rightarrow> (py_error + string) \<times> world" where
  "describe_external_function bk entry w =
     (case get entry ''address'' of
        None \<Rightarrow> (Inl ValueError, w)
      | Some address \<Rightarrow>
          (case get entry ''name'' of
             None \<Rightarrow> (Inl ValueError, w)
           | Some name \<Rightarrow>
               (let cache = load_cache w
                in case cache_lookup cache name of
                     Some cached \<Rightarrow>
                       (if address \<notin> set (rec_addresses cached)
                        then (Inr (rec_markdown cached),
                              snd (cache_update cache name (rec_markdown cached) address w))
                        else (Inr (rec_markdown cached), w))
                   | None \<Rightarrow>
                       (case run_bot bk (DescribeExternalReq name address) w of
                          (Inl e, w1) \<Rightarrow> (Inl e, w1)
                        | (Inr final_responses, w1) \<Rightarrow>
                            (case extract_markdown final_responses of
                               Inl e \<Rightarrow> (Inl e, w1)
                             | Inr markdown \<Rightarrow>
                                 (Inr markdown,
                                  snd (cache_update cache name markdown address w1)))))))"

section \<open>examples/describe\_internal\_function.py: describe\_internal\_function\<close>

definition describe_internal_function ::
  "backend \<Rightarrow> pydict \<Rightarrow> world \<Rightarrow> (py_error + string) \<times> world" where
  "describe_internal_function bk entry w =
     (case get entry ''address'' of
        None \<Rightarrow> (Inl ValueError, w)
      | Some address \<Rightarrow>
          (case get entry ''name'' of
             None \<Rightarrow> (Inl ValueError, w)
           | Some name \<Rightarrow>
               (case run_bot bk (DescribeInternalReq name address) w of
                  (Inl e, w1) \<Rightarrow> (Inl e, w1)
                | (Inr final_responses, w1) \<Rightarrow> (extract_markdown final_responses, w1))))"

section \<open>examples/analyze\_memory\_param.py: analyze\_memory\_param\<close>

definition analyze_memory_param ::
  "backend \<Rightarrow> pydict \<Rightarrow> world \<Rightarrow> (py_error + (string \<times> json) list) \<times> world" where
  "analyze_memory_param bk target w =
     (case get target ''address'' of
        None \<Rightarrow> (Inl ValueError, w)
      | Some address \<Rightarrow>
          (case get target ''func_name'' of
             None \<Rightarrow> (Inl ValueError, w)
           | Some func_name \<Rightarrow>
               (case run_bot bk (MemoryParamReq func_name address) w of
                  (Inl e, w1) \<Rightarrow> (Inl e, w1)
                | (Inr final_responses, w1) \<Rightarrow> (extract_json final_responses, w1))))"

section \<open>examples/analyze\_irp\_memory\_access.py: analyze\_irp\_memory\_access\<close>

text \<open>
  The context is part of the prompt when it is given and not empty. The payload is
  appended to the log, and to the sink when there is one; then the reply is read.
\<close>

definition analyze_irp_memory_access ::
  "backend \<Rightarrow> pydict \<Rightarrow> string option \<Rightarrow> transcript list option \<Rightarrow> world \<Rightarrow>
     ((py_error + string) \<times> transcript list option) \<times> world" where
  "analyze_irp_memory_access bk target context_markdown transcript_sink w =
     (case get target ''address'' of
        None \<Rightarrow> ((Inl ValueError, transcript_sink), w)
      | Some address \<Rightarrow>
          (case get target ''func_name'' of
             None \<Rightarrow> ((Inl ValueError, transcript_sink), w)
           | Some func_name \<Rightarrow>
               (let messages = IrpAccessReq func_name address
                                 (case context_markdown of None \<Rightarrow> [] | Some c \<Rightarrow> c)
                in case run_bot bk messages w of
                     (Inl e, w1) \<Rightarrow> ((Inl e, transcript_sink), w1)
                   | (Inr final_responses, w1) \<Rightarrow>
                       (let payload = \<lparr>t_target = target, t_messages = messages,
                                        t_responses = final_responses\<rparr>;
                            w2 = w1\<lparr>log_file := log_file w1 @ [payload]\<rparr>
                        in ((extract_markdown final_responses,
                             map_option (\<lambda>sink. sink @ [payload]) transcript_sink), w2)))))"

section \<open>Test doubles: worlds and backends for concrete runs\<close>

definition empty_world :: world where
  "empty_world = \<lparr>requests = [], console = [], cache_file = None, log_file = []\<rparr>"

text \<open>A backend whose conversations yield no message at all.\<close>

definition silent_backend :: backend where
  "silent_backend history req = Inr []"

text \<open>A backend that answers every request with the one assistant message \<open>fresh\<close>.\<close>

definition fresh_backend :: backend where
  "fresh_backend history req = Inr [assistant_msg ''fresh'']"




text \<open>A world whose cache file holds one description, of \<open>memcpy\<close>.\<close>

definition cached_world :: world where
  "cached_world = empty_world\<lparr>cache_file :=
     Some [\<lparr>rec_name = ''memcpy'', rec_markdown = ''cached'', rec_addresses = [''0x10'']\<rparr>]\<rparr>"


text \<open>
  A cache as \<open>load_cache\<close> builds it: the keys are distinct, and each record stands under
  its lowercased, non-empty name.
\<close>

definition wf_cache :: "cache \<Rightarrow> bool" where
  "wf_cache c =
     (distinct (map fst c) \<and>
      list_all (\<lambda>kr. fst kr = lower (rec_name (snd kr)) \<and> rec_name (snd kr) \<noteq> []) c)"

section \<open>pipeline.py: the streamed reply of run\_deep\_reasoning\<close>

text \<open>
  \<open>_stringify_stream_field\<close>. A field of a streamed delta is \<open>None\<close>, a string, a list,
  a dict or something else; \<open>d.get(a) or d.get(b) or c\<close> is the first truthy value, else
  the last operand.
\<close>

fun first_truthy :: "(string \<times> json) list \<Rightarrow> string list \<Rightarrow> json \<Rightarrow> json" where
  "first_truthy d [] dflt = dflt"
| "first_truthy d (k # ks) dflt =
     (case map_of d k of
        None \<Rightarrow> first_truthy d ks dflt
      | Some v \<Rightarrow> if truthy v then v else first_truthy d ks dflt)"

definition dict_text :: "(string \<times> json) list \<Rightarrow> json" where
  "dict_text d =
     first_truthy d [''text''] (case map_of d ''content'' of None \<Rightarrow> JNull | Some v \<Rightarrow> v)"

function stringify_stream_field :: "json \<Rightarrow> string" where
  "stringify_stream_field JNull = []"
| "stringify_stream_field (JStr s) = s"
| "stringify_stream_field (JArr items) =
     concat (map (\<lambda>item. case item of
         JObj d \<Rightarrow>
           (case first_truthy d [''text'', ''content'', ''data''] (JStr []) of
              JStr s \<Rightarrow> s
            | v \<Rightarrow> dumps v)
       | _ \<Rightarrow> stringify_stream_field item) items)"
| "stringify_stream_field (JObj d) =
     (case dict_text d of
        JStr s \<Rightarrow> s
      | v \<Rightarrow> if truthy v then stringify_stream_field v else dumps (JObj d))"
| "stringify_stream_field (JBool b) = py_str (JBool b)"
| "stringify_stream_field (JNum n) = py_str (JNum n)"
  by pat_completeness auto

lemma map_of_size: "map_of d k = Some v \<Longrightarrow> size v \<le> size_list (size_prod (\<lambda>_. 0) size) d"
  by (induction d) (auto split: if_splits)

lemma first_truthy_size:
  "size dflt \<le> size_list (size_prod (\<lambda>_. 0) size) d \<Longrightarrow>
   size (first_truthy d ks dflt) \<le> size_list (size_prod (\<lambda>_. 0) size) d"
  by (induction ks) (auto split: option.splits dest: map_of_size)

lemma dict_text_le:
  "dict_text d = v \<Longrightarrow> size v \<le> size_list (size_prod (\<lambda>_. 0) size) d"
proof -
  have "size (dict_text d) \<le> size_list (size_prod (\<lambda>_. 0) size) d"
    unfolding dict_text_def
    by (rule first_truthy_size) (auto split: option.splits dest: map_of_size)
  then show "dict_text d = v \<Longrightarrow> size v \<le> size_list (size_prod (\<lambda>_. 0) size) d"
    by simp
qed

lemma member_size: "x \<in> set xs \<Longrightarrow> size x \<le> size_list size xs"
  by (induction xs) auto

termination stringify_stream_field
  by (relation "measure size") (auto dest!: member_size dict_text_le)

text \<open>
  The objects of the stream, read with \<open>getattr(obj, name, None)\<close>: a chunk has its
  \<open>choices\<close> (\<open>None\<close> and the empty list are both \<open>[]\<close> here, as \<open>not choices\<close> reads
  them) and its \<open>usage\<close> (the text \<open>print\<close> shows for it, \<open>None\<close> when it is absent or
  falsy); a choice has its \<open>delta\<close>; a delta has the three fields, \<open>JNull\<close> when absent.
\<close>

record delta =
  reasoning_content :: json
  thinking :: json
  content :: json

record choice =
  delta :: "delta option"

record chunk =
  choices :: "choice list"
  usage :: "string option"

text \<open>
  The variables of the loop, and the console: \<open>printed\<close> holds the text of each \<open>print\<close>
  call in order (with its line end, unless \<open>end=""\<close>).
\<close>

record stream_state =
  printed :: "string list"
  reasoning_parts :: "string list"
  answer_parts :: "string list"
  is_answering :: bool

definition thinking_title :: string where
  "thinking_title = [CHR 0xE6, CHR 0x80, CHR 0x9D, CHR 0xE8, CHR 0x80, CHR 0x83,
                     CHR 0xE8, CHR 0xBF, CHR 0x87, CHR 0xE7, CHR 0xA8, CHR 0x8B]"

definition answer_title :: string where
  "answer_title = [CHR 0xE5, CHR 0xAE, CHR 0x8C, CHR 0xE6, CHR 0x95, CHR 0xB4,
                   CHR 0xE5, CHR 0x9B, CHR 0x9E, CHR 0xE5, CHR 0xA4, CHR 0x8D]"

definition no_reasoning_text :: string where
  "no_reasoning_text = [CHR 0xEF, CHR 0xBC, CHR 0x88, CHR 0xE6, CHR 0x97, CHR 0xA0,
     CHR 0xE6, CHR 0x80, CHR 0x9D, CHR 0xE8, CHR 0x80, CHR 0x83, CHR 0xE5, CHR 0x86, CHR 0x85,
     CHR 0xE5, CHR 0xAE, CHR 0xB9, CHR 0xEF, CHR 0xBC, CHR 0x89]"

definition no_answer_text :: string where
  "no_answer_text = [CHR 0xEF, CHR 0xBC, CHR 0x88, CHR 0xE6, CHR 0x97, CHR 0xA0,
     CHR 0xE6, CHR 0xAD, CHR 0xA3, CHR 0xE5, CHR 0xBC, CHR 0x8F, CHR 0xE5, CHR 0x9B, CHR 0x9E,
     CHR 0xE5, CHR 0xA4, CHR 0x8D, CHR 0xEF, CHR 0xBC, CHR 0x89]"

definition stream_banner :: string where
  "stream_banner = ''\<newline>[=] '' @ [CHR 0xE6, CHR 0xB7, CHR 0xB1, CHR 0xE5, CHR 0xBA, CHR 0xA6,
     CHR 0xE6, CHR 0x80, CHR 0x9D, CHR 0xE8, CHR 0x80, CHR 0x83, CHR 0xE8, CHR 0xBE, CHR 0x93,
     CHR 0xE5, CHR 0x87, CHR 0xBA, CHR 0xEF, CHR 0xBC, CHR 0x88] @ ''deepseek-v3.2-exp'' @
     [CHR 0xEF, CHR 0xBC, CHR 0x89] @ ''\<newline>\<newline>''"

definition stream_done :: string where
  "stream_done = ''\<newline>\<newline>[=] '' @ [CHR 0xE6, CHR 0xB7, CHR 0xB1, CHR 0xE5, CHR 0xBA, CHR 0xA6,
     CHR 0xE6, CHR 0x80, CHR 0x9D, CHR 0xE8, CHR 0x80, CHR 0x83, CHR 0xE5, CHR 0x88, CHR 0x86,
     CHR 0xE6, CHR 0x9E, CHR 0x90, CHR 0xE5, CHR 0xAE, CHR 0x8C, CHR 0xE6, CHR 0x88, CHR 0x90] @
     ''\<newline>\<newline>''"

definition thinking_header :: string where
  "thinking_header =
     replicate 20 CHR ''='' @ thinking_title @ replicate 20 CHR ''='' @ ''\<newline>\<newline>''"

definition answer_header :: string where
  "answer_header =
     ''\<newline>'' @ replicate 20 CHR ''='' @ answer_title @ replicate 20 CHR ''='' @ ''\<newline>\<newline>''"

text \<open>The body of \<open>for chunk in stream\<close>, lines 424 to 447.\<close>

definition stream_step :: "stream_state \<Rightarrow> chunk \<Rightarrow> stream_state" where
  "stream_step st ch =
     (case choices ch of
        [] \<Rightarrow>
          (case usage ch of
             None \<Rightarrow> st
           | Some u \<Rightarrow> st\<lparr>printed := printed st @ [''\<newline>Usage:\<newline>'', u @ ''\<newline>'']\<rparr>)
      | c # _ \<Rightarrow>
          (case delta c of
             None \<Rightarrow> st
           | Some d \<Rightarrow>
               let t0 = stringify_stream_field (reasoning_content d);
                   t = (if t0 = [] then stringify_stream_field (thinking d) else t0);
                   st1 = (if t \<noteq> []
                          then st\<lparr>printed := (if is_answering st then printed st
                                                else printed st @ [t]),
                                  reasoning_parts := reasoning_parts st @ [t]\<rparr>
                          else st);
                   a = stringify_stream_field (content d)
               in if a \<noteq> []
                  then st1\<lparr>printed := (if is_answering st1 then printed st1
                                         else printed st1 @ [answer_header]) @ [a],
                           answer_parts := answer_parts st1 @ [a],
                           is_answering := True\<rparr>
                  else st1))"

text \<open>
  Lines 417 to 460. The stream is the list of the chunks it delivers: an exception
  raised while iterating is caught and only ends the loop. The result is the returned
  markdown, with the final state of the loop.
\<close>

definition stream_start :: stream_state where
  "stream_start = \<lparr>printed = [stream_banner, thinking_header], reasoning_parts = [],
                    answer_parts = [], is_answering = False\<rparr>"

definition stream_loop :: "stream_state \<Rightarrow> chunk list \<Rightarrow> stream_state" where
  "stream_loop st chunks = foldl stream_step st chunks"

definition reasoning_text :: "stream_state \<Rightarrow> string" where
  "reasoning_text st = strip (concat (reasoning_parts st))"

definition answer_text :: "stream_state \<Rightarrow> string" where
  "answer_text st = strip (concat (answer_parts st))"

definition combined_sections :: "stream_state \<Rightarrow> string list" where
  "combined_sections st =
     [''### '' @ thinking_title,
      (if reasoning_text st = [] then no_reasoning_text else reasoning_text st),
      ''### '' @ answer_title,
      (if answer_text st = [] then no_answer_text else answer_text st)]"

definition assemble_stream :: "chunk list \<Rightarrow> string \<times> stream_state" where
  "assemble_stream chunks =
     (let st = stream_loop stream_start chunks;
          st' = st\<lparr>printed := printed st @ [stream_done]\<rparr>
      in (strip (join ''\<newline>\<newline>'' (combined_sections st')), st'))"

text \<open>
  The two channel fragments of a chunk as the loop reads them, and a chunk of the usual
  shape: one choice whose delta carries a reasoning string or an answer string.
\<close>

definition reasoning_fragment :: "chunk \<Rightarrow> string" where
  "reasoning_fragment ch =
     (case choices ch of
        [] \<Rightarrow> []
      | c # _ \<Rightarrow>
          (case delta c of
             None \<Rightarrow> []
           | Some d \<Rightarrow>
               if stringify_stream_field (reasoning_content d) = []
               then stringify_stream_field (thinking d)
               else stringify_stream_field (reasoning_content d)))"

definition answer_fragment :: "chunk \<Rightarrow> string" where
  "answer_fragment ch =
     (case choices ch of
        [] \<Rightarrow> []
      | c # _ \<Rightarrow> (case delta c of None \<Rightarrow> [] | Some d \<Rightarrow> stringify_stream_field (content d)))"

definition reasoning_chunk :: "string \<Rightarrow> chunk" where
  "reasoning_chunk s =
     \<lparr>choices = [\<lparr>delta = Some \<lparr>reasoning_content = JStr s, thinking = JNull, content = JNull\<rparr>\<rparr>],
      usage = None\<rparr>"

definition answer_chunk :: "string \<Rightarrow> chunk" where
  "answer_chunk s =
     \<lparr>choices = [\<lparr>delta = Some \<lparr>reasoning_content = JNull, thinking = JNull, content = JStr s\<rparr>\<rparr>],
      usage = None\<rparr>"

text \<open>What the loop prints for a chunk once it is answering: no reasoning fragment.\<close>

definition answering_echo :: "chunk \<Rightarrow> string list" where
  "answering_echo ch =
     (case choices ch of
        [] \<Rightarrow> (case usage ch of None \<Rightarrow> [] | Some u \<Rightarrow> [''\<newline>Usage:\<newline>'', u @ ''\<newline>''])
      | c # _ \<Rightarrow> (if answer_fragment ch = [] then [] else [answer_fragment ch]))"

text \<open>What it prints for a chunk without an answer fragment while it is still thinking.\<close>

definition thinking_echo :: "chunk \<Rightarrow> string list" where
  "thinking_echo ch =
     (case choices ch of
        [] \<Rightarrow> (case usage ch of None \<Rightarrow> [] | Some u \<Rightarrow> [''\<newline>Usage:\<newline>'', u @ ''\<newline>''])
      | c # _ \<Rightarrow> (if reasoning_fragment ch = [] then [] else [reasoning_fragment ch]))"

text \<open>The chunk sequence of the specification's example.\<close>

definition example_chunks :: "chunk list" where
  "example_chunks =
     [reasoning_chunk ''why '', reasoning_chunk ''so'', answer_chunk ''yes'',
      reasoning_chunk ''ignored'']"

section \<open>pipeline.py: dedupe\_functions\<close>

text \<open>
  The loop of \<open>dedupe_functions\<close>: \<open>seen\<close> is the set of keys met so far and \<open>deduped\<close>
  the output list. \<open>if not name or not addr: continue\<close> skips an entry whose field is
  missing (\<open>None\<close>) or the empty string.
\<close>

fun dedupe_loop ::
  "string \<Rightarrow> string \<Rightarrow> pydict list \<Rightarrow> (string \<times> string) set \<Rightarrow> pydict list \<Rightarrow> pydict list"
where
  "dedupe_loop name_key addr_key [] seen deduped = deduped"
| "dedupe_loop name_key addr_key (entry # entries) seen deduped =
     (case get entry name_key of
        None \<Rightarrow> dedupe_loop name_key addr_key entries seen deduped
      | Some name \<Rightarrow>
          (case get entry addr_key of
             None \<Rightarrow> dedupe_loop name_key addr_key entries seen deduped
           | Some addr \<Rightarrow>
               if name = [] \<or> addr = []
               then dedupe_loop name_key addr_key entries seen deduped
               else if (lower name, lower addr) \<in> seen
               then dedupe_loop name_key addr_key entries seen deduped
               else dedupe_loop name_key addr_key entries
                      (insert (lower name, lower addr) seen) (deduped @ [entry])))"

definition dedupe_functions :: "pydict list \<Rightarrow> string \<Rightarrow> string \<Rightarrow> pydict list" where
  "dedupe_functions entries name_key addr_key = dedupe_loop name_key addr_key entries {} []"


subsection \<open>What the deduplicator computes, in the words of the specification\<close>

text \<open>
  The identity of a record: the lowercased name and address, defined when both fields are
  there and not empty.
\<close>

definition entry_key :: "string \<Rightarrow> string \<Rightarrow> pydict \<Rightarrow> (string \<times> string) option" where
  "entry_key name_key addr_key entry =
     (case get entry name_key of
        None \<Rightarrow> None
      | Some name \<Rightarrow>
          (case get entry addr_key of
             None \<Rightarrow> None
           | Some addr \<Rightarrow> if name = [] \<or> addr = [] then None else Some (lower name, lower addr)))"

definition fields_present :: "string \<Rightarrow> string \<Rightarrow> pydict \<Rightarrow> bool" where
  "fields_present name_key addr_key entry =
     (get entry name_key \<noteq> None \<and> get entry addr_key \<noteq> None)"

definition usable :: "string \<Rightarrow> string \<Rightarrow> pydict \<Rightarrow> bool" where
  "usable name_key addr_key entry = (entry_key name_key addr_key entry \<noteq> None)"

text \<open>First-seen order: an element stays, the later elements with its key go.\<close>

fun first_seen :: "('a \<Rightarrow> 'k) \<Rightarrow> 'a list \<Rightarrow> 'a list" where
  "first_seen f [] = []"
| "first_seen f (x # xs) = x # first_seen f (filter (\<lambda>y. f y \<noteq> f x) xs)"

section \<open>pipeline.py: the steps it calls\<close>

text \<open>
  \<open>pipeline.py\<close> reaches the backend only through the step functions it imports, and
  \<open>run_deep_reasoning\<close> through its model client. The orchestration is modelled for any
  behaviour of these steps: a step takes its arguments and a state \<open>'w\<close> of everything
  outside the process (backend, cache, logs) and returns the state it leaves with its
  result or the exception it raises, typed as the source annotates it (\<open>Dict[str, str]\<close>,
  \<open>List[Dict[str, str]]\<close>, \<open>str\<close>). The step of the IRP analysis also returns the
  transcript sink, a list it appends to; \<open>'t\<close> is the type of a transcript. What
  \<open>log_step\<close>, \<open>print_block\<close> and \<open>logging.exception\<close> write to the terminal is not
  modelled. \<open>except Exception\<close> catches every exception of the model.
\<close>

record ('w, 't) steps =
  step_find_iocreatedevice_refs :: "'w \<Rightarrow> (py_error + pydict list) \<times> 'w"
  step_analyze_major_function_target :: "pydict \<Rightarrow> 'w \<Rightarrow> (py_error + pydict) \<times> 'w"
  step_rename_io_control_code :: "pydict \<Rightarrow> 'w \<Rightarrow> (py_error + pydict) \<times> 'w"
  step_define_driver_dispatch :: "pydict \<Rightarrow> 'w \<Rightarrow> (py_error + pydict) \<times> 'w"
  step_list_subfunctions :: "pydict \<Rightarrow> 'w \<Rightarrow> (py_error + pydict list) \<times> 'w"
  step_describe_external_function :: "pydict \<Rightarrow> 'w \<Rightarrow> (py_error + string) \<times> 'w"
  step_describe_internal_function :: "pydict \<Rightarrow> 'w \<Rightarrow> (py_error + string) \<times> 'w"
  step_analyze_memory_param_markdown :: "pydict \<Rightarrow> 'w \<Rightarrow> (py_error + string) \<times> 'w"
  step_analyze_irp_memory_access ::
    "pydict \<Rightarrow> string option \<Rightarrow> 't list \<Rightarrow> 'w \<Rightarrow> ((py_error + string) \<times> 't list) \<times> 'w"
  step_deep_reasoning :: "'t list \<Rightarrow> string list \<Rightarrow> 'w \<Rightarrow> (py_error + string) \<times> 'w"

text \<open>\<open>d.get(k, default)\<close>, and \<open>d.get(k)\<close> inside an f-string, where \<open>None\<close> reads \<open>None\<close>.\<close>

definition get_default :: "pydict \<Rightarrow> string \<Rightarrow> string \<Rightarrow> string" where
  "get_default d k dflt = (case get d k of None \<Rightarrow> dflt | Some v \<Rightarrow> v)"

definition format_get :: "pydict \<Rightarrow> string \<Rightarrow> string" where
  "format_get d k = (case get d k of None \<Rightarrow> ''None'' | Some v \<Rightarrow> v)"

section \<open>pipeline.py: has\_memory\_marker and describe\_child\<close>

definition MEMORY_MARKERS :: "string list" where
  "MEMORY_MARKERS = [''# MEM #'', ''# MAP #'']"

definition has_memory_marker :: "string \<Rightarrow> bool" where
  "has_memory_marker text = list_ex (\<lambda>marker. contains marker text) MEMORY_MARKERS"

text \<open>
  \<open>describe_child\<close> returns the description and the memory code. \<open>child["address"]\<close> and
  \<open>child["name"]\<close> raise \<open>KeyError\<close> on a missing key. A child of type \<open>external\<close> returns
  from the first branch; the check of the markers stands after the internal description
  only.
\<close>

definition describe_child ::
  "('w, 't) steps \<Rightarrow> pydict \<Rightarrow> 'w \<Rightarrow> (py_error + string \<times> string) \<times> 'w" where
  "describe_child st child w =
     (if get child ''type'' = Some ''external'' then
        (case get child ''address'' of
           None \<Rightarrow> (Inl (KeyError ''address''), w)
         | Some address \<Rightarrow>
             (case get child ''name'' of
                None \<Rightarrow> (Inl (KeyError ''name''), w)
              | Some name \<Rightarrow>
                  (case step_describe_external_function st
                          [(''address'', address), (''name'', name)] w of
                     (Inl e, w1) \<Rightarrow> (Inl e, w1)
                   | (Inr desc, w1) \<Rightarrow> (Inr (desc, []), w1))))
      else
        (case get child ''address'' of
           None \<Rightarrow> (Inl (KeyError ''address''), w)
         | Some address \<Rightarrow>
             (case get child ''name'' of
                None \<Rightarrow> (Inl (KeyError ''name''), w)
              | Some name \<Rightarrow>
                  (case step_describe_internal_function st
                          [(''address'', address), (''name'', name)] w of
                     (Inl e, w1) \<Rightarrow> (Inl e, w1)
                   | (Inr desc, w1) \<Rightarrow>
                       if has_memory_marker desc then
                         (case step_analyze_memory_param_markdown st
                                 [(''address'', address), (''func_name'', name)] w1 of
                            (Inl e, w2) \<Rightarrow> (Inl e, w2)
                          | (Inr mem_md, w2) \<Rightarrow>
                              (Inr (desc @ ''\<newline>\<newline>---\<newline>'' @ mem_md, mem_md), w2))
                       else (Inr (desc, []), w1)))))"

section \<open>pipeline.py: format\_child\_section\<close>

text \<open>The label of the address line, \<open>- address:\<close> and the opening backquote.\<close>

definition address_label :: string where
  "address_label = ''- '' @ [CHR 0xE5, CHR 0x9C, CHR 0xB0, CHR 0xE5, CHR 0x9D, CHR 0x80,
      CHR 0xEF, CHR 0xBC, CHR 0x9A, CHR 0x60]"

definition format_child_section :: "pydict \<Rightarrow> string \<Rightarrow> string" where
  "format_child_section child description =
     (let name = get_default child ''name'' ''unknown'';
          addr = get_default child ''address'' ''N/A'';
          func_type = get_default child ''type'' ''internal'';
          header = ''#### '' @ name @ '' ('' @ func_type @ '')'' @ ''\<newline>'' @
                   address_label @ addr @ [CHR 0x60]
      in header @ ''\<newline>\<newline>'' @ strip description)"

section \<open>pipeline.py: analyze\_parent\_memory and analyze\_irp\_memory\_section\<close>

text \<open>The two placeholders returned when the analysis raises.\<close>

definition memory_failed_text :: string where
  "memory_failed_text = [CHR 0xEF, CHR 0xBC, CHR 0x88] @ ''analyze_memory_param '' @
      [CHR 0xE8, CHR 0xBF, CHR 0x90, CHR 0xE8, CHR 0xA1, CHR 0x8C, CHR 0xE5, CHR 0xA4,
      CHR 0xB1, CHR 0xE8, CHR 0xB4, CHR 0xA5, CHR 0xEF, CHR 0xBC, CHR 0x89]"

definition irp_failed_text :: string where
  "irp_failed_text = [CHR 0xEF, CHR 0xBC, CHR 0x88] @ ''IRP '' @ [CHR 0xE6, CHR 0x8E,
      CHR 0xA7, CHR 0xE5, CHR 0x88, CHR 0xB6, CHR 0xE5, CHR 0x86, CHR 0x85, CHR 0xE5,
      CHR 0xAD, CHR 0x98, CHR 0xE8, CHR 0xAE, CHR 0xBF, CHR 0xE9, CHR 0x97, CHR 0xAE,
      CHR 0xE5, CHR 0x88, CHR 0x86, CHR 0xE6, CHR 0x9E, CHR 0x90, CHR 0xE5, CHR 0xA4,
      CHR 0xB1, CHR 0xE8, CHR 0xB4, CHR 0xA5, CHR 0xEF, CHR 0xBC, CHR 0x89]"

definition analyze_parent_memory :: "('w, 't) steps \<Rightarrow> pydict \<Rightarrow> 'w \<Rightarrow> string \<times> 'w" where
  "analyze_parent_memory st target w =
     (case step_analyze_memory_param_markdown st target w of
        (Inl e, w1) \<Rightarrow> (memory_failed_text, w1)
      | (Inr result, w1) \<Rightarrow> (result, w1))"

definition analyze_irp_memory_section ::
  "('w, 't) steps \<Rightarrow> pydict \<Rightarrow> string option \<Rightarrow> 't list \<Rightarrow> 'w \<Rightarrow> (string \<times> 't list) \<times> 'w"
where
  "analyze_irp_memory_section st target context transcript_sink w =
     (case step_analyze_irp_memory_access st target context transcript_sink w of
        ((Inl e, sink), w1) \<Rightarrow> ((irp_failed_text, sink), w1)
      | ((Inr result, sink), w1) \<Rightarrow> ((result, sink), w1))"

section \<open>pipeline.py: process\_major\_function\<close>

text \<open>
  The loop over the children: a child whose description raises is passed over
  (\<open>continue\<close>); for the others the section is appended, and the memory code when it is
  not empty.
\<close>

definition mem_code_title :: string where
  "mem_code_title = '' '' @ [CHR 0xE5, CHR 0x8F, CHR 0xAF, CHR 0xE6, CHR 0x8E, CHR 0xA7,
      CHR 0xE5, CHR 0x86, CHR 0x85, CHR 0xE5, CHR 0xAD, CHR 0x98, CHR 0xE5, CHR 0x8F,
      CHR 0x82, CHR 0xE6, CHR 0x95, CHR 0xB0] @ ''\<newline>''"

definition child_mem_code :: "pydict \<Rightarrow> string \<Rightarrow> string" where
  "child_mem_code child mem_code =
     ''### '' @ format_get child ''name'' @ mem_code_title @ strip mem_code"

fun child_loop ::
  "('w, 't) steps \<Rightarrow> pydict list \<Rightarrow> string list \<Rightarrow> string list \<Rightarrow> 'w \<Rightarrow>
   (string list \<times> string list) \<times> 'w"
where
  "child_loop st [] child_sections child_mem_codes w = ((child_sections, child_mem_codes), w)"
| "child_loop st (child # children) child_sections child_mem_codes w =
     (case describe_child st child w of
        (Inl e, w1) \<Rightarrow> child_loop st children child_sections child_mem_codes w1
      | (Inr (desc, mem_code), w1) \<Rightarrow>
          child_loop st children
            (child_sections @ [format_child_section child desc])
            (if mem_code \<noteq> [] then child_mem_codes @ [child_mem_code child mem_code]
             else child_mem_codes)
            w1)"

text \<open>The placeholder of a caller none of whose children has a description.\<close>

definition no_children_text :: string where
  "no_children_text = [CHR 0xEF, CHR 0xBC, CHR 0x88, CHR 0xE6, CHR 0x9C, CHR 0xAA,
      CHR 0xE8, CHR 0x8E, CHR 0xB7, CHR 0xE5, CHR 0x8F, CHR 0x96, CHR 0xE5, CHR 0x88,
      CHR 0xB0, CHR 0xE5, CHR 0xAD, CHR 0x90, CHR 0xE5, CHR 0x87, CHR 0xBD, CHR 0xE6,
      CHR 0x95, CHR 0xB0, CHR 0xE6, CHR 0x8F, CHR 0x8F, CHR 0xE8, CHR 0xBF, CHR 0xB0,
      CHR 0xEF, CHR 0xBC, CHR 0x89]"

definition child_block :: "string list \<Rightarrow> string" where
  "child_block child_sections =
     (if child_sections = [] then no_children_text
      else join ''\<newline>\<newline>'' child_sections)"

text \<open>The headings of the context given to the IRP analysis.\<close>

definition children_heading :: string where
  "children_heading = ''### '' @ [CHR 0xE5, CHR 0xAD, CHR 0x90, CHR 0xE5, CHR 0x87,
      CHR 0xBD, CHR 0xE6, CHR 0x95, CHR 0xB0, CHR 0xE6, CHR 0x8F, CHR 0x8F, CHR 0xE8,
      CHR 0xBF, CHR 0xB0] @ ''\<newline>''"

definition memory_heading :: string where
  "memory_heading = ''\<newline>### '' @ [CHR 0xE5, CHR 0x87, CHR 0xBD, CHR 0xE6,
      CHR 0x95, CHR 0xB0, CHR 0xE5, CHR 0x86, CHR 0x85, CHR 0xE5, CHR 0xAD, CHR 0x98,
      CHR 0xE5, CHR 0x8F, CHR 0x82, CHR 0xE6, CHR 0x95, CHR 0xB0, CHR 0xE5, CHR 0x88,
      CHR 0x86, CHR 0xE6, CHR 0x9E, CHR 0x90] @ ''\<newline>''"

definition mem_codes_heading :: string where
  "mem_codes_heading = ''\<newline>\<newline>### '' @ [CHR 0xE5, CHR 0x8F, CHR 0xAF,
      CHR 0xE6, CHR 0x8E, CHR 0xA7, CHR 0xE5, CHR 0x86, CHR 0x85, CHR 0xE5, CHR 0xAD,
      CHR 0x98, CHR 0xE5, CHR 0x8F, CHR 0x82, CHR 0xE6, CHR 0x95, CHR 0xB0, CHR 0xE4,
      CHR 0xBB, CHR 0xA3, CHR 0xE7, CHR 0xA0, CHR 0x81] @ ''\<newline>''"

definition combined_context :: "string \<Rightarrow> string \<Rightarrow> string list \<Rightarrow> string" where
  "combined_context block parent_mem_md child_mem_codes =
     (let combined = strip (join ''\<newline>''
            (filter (\<lambda>part. part \<noteq> [])
               [children_heading, block, memory_heading, parent_mem_md]))
      in if child_mem_codes \<noteq> []
         then combined @ mem_codes_heading @ join ''\<newline>\<newline>'' child_mem_codes
         else combined)"

text \<open>The lines of the report of one caller.\<close>

definition handler_label :: string where
  "handler_label = ''**MajorFunction[14] '' @ [CHR 0xE5, CHR 0xA4, CHR 0x84, CHR 0xE7,
      CHR 0x90, CHR 0x86, CHR 0xE5, CHR 0x87, CHR 0xBD, CHR 0xE6, CHR 0x95, CHR 0xB0,
      CHR 0xEF, CHR 0xBC, CHR 0x9A] @ ''** ''"

definition report_children_heading :: string where
  "report_children_heading = ''#### '' @ [CHR 0xE5, CHR 0xAD, CHR 0x90, CHR 0xE5,
      CHR 0x87, CHR 0xBD, CHR 0xE6, CHR 0x95, CHR 0xB0, CHR 0xE6, CHR 0x8F, CHR 0x8F,
      CHR 0xE8, CHR 0xBF, CHR 0xB0]"

definition report_memory_heading :: string where
  "report_memory_heading = ''#### '' @ [CHR 0xE5, CHR 0x87, CHR 0xBD, CHR 0xE6, CHR 0x95,
      CHR 0xB0, CHR 0xE5, CHR 0x86, CHR 0x85, CHR 0xE5, CHR 0xAD, CHR 0x98, CHR 0xE5,
      CHR 0x8F, CHR 0x82, CHR 0xE6, CHR 0x95, CHR 0xB0, CHR 0xE5, CHR 0x88, CHR 0x86,
      CHR 0xE6, CHR 0x9E, CHR 0x90]"

definition report_irp_heading :: string where
  "report_irp_heading = ''#### IRP '' @ [CHR 0xE6, CHR 0x8E, CHR 0xA7, CHR 0xE5,
      CHR 0x88, CHR 0xB6, CHR 0xE5, CHR 0x86, CHR 0x85, CHR 0xE5, CHR 0xAD, CHR 0x98,
      CHR 0xE8, CHR 0xAE, CHR 0xBF, CHR 0xE9, CHR 0x97, CHR 0xAE]"

definition caller_heading :: "pydict \<Rightarrow> string" where
  "caller_heading caller =
     ''### Caller: '' @ format_get caller ''func_name'' @ '' @ '' @ [CHR 0x60] @
     format_get caller ''address'' @ [CHR 0x60]"

definition report_lines ::
  "pydict \<Rightarrow> pydict \<Rightarrow> string \<Rightarrow> string \<Rightarrow> string \<Rightarrow> string list" where
  "report_lines caller handler block parent_mem_md irp_md =
     [caller_heading caller,
      [],
      handler_label @ format_get handler ''func_name'' @ '' @ '' @ [CHR 0x60] @
        format_get handler ''address'' @ [CHR 0x60],
      [],
      report_children_heading,
      block,
      [],
      report_memory_heading,
      parent_mem_md,
      [],
      report_irp_heading,
      irp_md]"

text \<open>
  \<open>process_major_function\<close>: \<open>handler["address"]\<close> and \<open>handler["func_name"]\<close> stand
  outside every \<open>try\<close>; a failure of \<open>list_subfunctions\<close> leaves the empty list of
  children, and the steps after it run all the same.
\<close>

definition process_major_function ::
  "('w, 't) steps \<Rightarrow> pydict \<Rightarrow> pydict \<Rightarrow> 'w \<Rightarrow>
   (py_error + string \<times> 't list \<times> string list) \<times> 'w"
where
  "process_major_function st caller handler w =
     (case get handler ''address'' of
        None \<Rightarrow> (Inl (KeyError ''address''), w)
      | Some address \<Rightarrow>
          (case get handler ''func_name'' of
             None \<Rightarrow> (Inl (KeyError ''func_name''), w)
           | Some func_name \<Rightarrow>
               (let handler_target = [(''address'', address), (''func_name'', func_name)];
                    (children, w1) =
                      (case step_list_subfunctions st handler_target w of
                         (Inl e, w1) \<Rightarrow> ([], w1)
                       | (Inr children, w1) \<Rightarrow> (children, w1));
                    ((child_sections, child_mem_codes), w2) = child_loop st children [] [] w1;
                    block = child_block child_sections;
                    (parent_mem_md, w3) = analyze_parent_memory st handler_target w2;
                    context = combined_context block parent_mem_md child_mem_codes;
                    ((irp_md, irp_transcripts), w4) =
                      analyze_irp_memory_section st handler_target (Some context) [] w3
                in (Inr (strip (join ''\<newline>''
                           (report_lines caller handler block parent_mem_md irp_md)),
                         irp_transcripts, child_mem_codes),
                    w4))))"

section \<open>pipeline.py: write\_result\_report\<close>





section \<open>pipeline.py: main\<close>







section \<open>What a caller's report holds of its children, in the words of the specification\<close>

text \<open>
  The outcomes of the descriptions of the children, in the order of the enumeration, each
  child described in the state the one before it left; and the children so described,
  with the description and the memory code.
\<close>

fun child_outcomes ::
  "('w, 't) steps \<Rightarrow> pydict list \<Rightarrow> 'w \<Rightarrow> (pydict \<times> (py_error + string \<times> string)) list" where
  "child_outcomes st [] w = []"
| "child_outcomes st (child # children) w =
     (child, fst (describe_child st child w)) #
     child_outcomes st children (snd (describe_child st child w))"

fun described ::
  "(pydict \<times> (py_error + string \<times> string)) list \<Rightarrow> (pydict \<times> string \<times> string) list" where
  "described [] = []"
| "described ((child, Inl e) # outcomes) = described outcomes"
| "described ((child, Inr (desc, mem_code)) # outcomes) =
     (child, desc, mem_code) # described outcomes"

definition section_of :: "pydict \<times> string \<times> string \<Rightarrow> string" where
  "section_of d = format_child_section (fst d) (fst (snd d))"

definition has_mem_code :: "pydict \<times> string \<times> string \<Rightarrow> bool" where
  "has_mem_code d = (snd (snd d) \<noteq> [])"

definition mem_code_of :: "pydict \<times> string \<times> string \<Rightarrow> string" where
  "mem_code_of d = child_mem_code (fst d) (snd (snd d))"

text \<open>The state the loop over the children leaves.\<close>

fun after_children :: "('w, 't) steps \<Rightarrow> pydict list \<Rightarrow> 'w \<Rightarrow> 'w" where
  "after_children st [] w = w"
| "after_children st (child # children) w =
     after_children st children (snd (describe_child st child w))"


section \<open>Test doubles: scripted steps that log their calls\<close>

text \<open>
  The state of the scripted steps is the list of the calls made so far. A script gives
  the callers found, the handler of a caller, the children of a handler, the description
  of a child and the memory analysis of a function, each by name; a step whose table has
  no entry for its argument raises.
\<close>

datatype call =
    FindRefs
  | ResolveHandler pydict
  | Rename pydict
  | DefineDispatch pydict
  | ListChildren pydict
  | DescribeExternal pydict
  | DescribeInternal pydict
  | MemoryParam pydict
  | IrpAccess pydict "string option"
  | DeepReasoning

record script =
  found :: "pydict list"
  handler_of :: "(string \<times> pydict) list"
  children_of :: "(string \<times> pydict list) list"
  description_of :: "(string \<times> string) list"
  memory_of :: "(string \<times> string) list"

definition answer :: "(string \<times> 'a) list \<Rightarrow> pydict \<Rightarrow> string \<Rightarrow> py_error + 'a" where
  "answer table arg key =
     (case get arg key of
        None \<Rightarrow> Inl ValueError
      | Some k \<Rightarrow> (case map_of table k of None \<Rightarrow> Inl (BackendError k) | Some v \<Rightarrow> Inr v))"

definition scripted :: "script \<Rightarrow> (call list, pydict) steps" where
  "scripted s =
     \<lparr>step_find_iocreatedevice_refs = (\<lambda>w. (Inr (found s), w @ [FindRefs])),
      step_analyze_major_function_target =
        (\<lambda>target w. (answer (handler_of s) target ''func_name'', w @ [ResolveHandler target])),
      step_rename_io_control_code = (\<lambda>target w. (Inr target, w @ [Rename target])),
      step_define_driver_dispatch = (\<lambda>target w. (Inr target, w @ [DefineDispatch target])),
      step_list_subfunctions =
        (\<lambda>target w. (answer (children_of s) target ''func_name'', w @ [ListChildren target])),
      step_describe_external_function =
        (\<lambda>entry w. (answer (description_of s) entry ''name'', w @ [DescribeExternal entry])),
      step_describe_internal_function =
        (\<lambda>entry w. (answer (description_of s) entry ''name'', w @ [DescribeInternal entry])),
      step_analyze_memory_param_markdown =
        (\<lambda>target w. (answer (memory_of s) target ''func_name'', w @ [MemoryParam target])),
      step_analyze_irp_memory_access =
        (\<lambda>target context sink w.
           ((Inr (''irp of '' @ format_get target ''func_name''), sink @ [target]),
            w @ [IrpAccess target context])),
      step_deep_reasoning = (\<lambda>transcripts sections w. (Inr ''deep'', w @ [DeepReasoning]))\<rparr>"

text \<open>
  A driver with three callers. The handler of the first has an external child and an
  internal one whose descriptions carry a marker, and a third child whose description
  raises; the children of the handler of the second cannot be listed; the one child of
  the handler of the third has no description.
\<close>

definition caller_a :: pydict where
  "caller_a = [(''address'', ''0x1000''), (''func_name'', ''DriverEntry'')]"

definition caller_b :: pydict where
  "caller_b = [(''address'', ''0x2000''), (''func_name'', ''sub_2000'')]"

definition caller_c :: pydict where
  "caller_c = [(''address'', ''0x3000''), (''func_name'', ''sub_3000'')]"

definition handler_a :: pydict where
  "handler_a = [(''address'', ''0x1100''), (''func_name'', ''DispatchA'')]"

definition handler_b :: pydict where
  "handler_b = [(''address'', ''0x2100''), (''func_name'', ''DispatchB'')]"

definition handler_c :: pydict where
  "handler_c = [(''address'', ''0x3100''), (''func_name'', ''DispatchC'')]"

definition child_memcpy :: pydict where
  "child_memcpy = [(''address'', ''0x9000''), (''name'', ''memcpy''), (''type'', ''external'')]"

definition child_map :: pydict where
  "child_map = [(''address'', ''0x1200''), (''name'', ''sub_1200''), (''type'', ''internal'')]"

definition child_plain :: pydict where
  "child_plain = [(''address'', ''0x1300''), (''name'', ''sub_1300''), (''type'', ''internal'')]"

definition child_lost :: pydict where
  "child_lost = [(''address'', ''0x1400''), (''name'', ''sub_1400''), (''type'', ''internal'')]"

definition driver :: script where
  "driver =
     \<lparr>found = [caller_a, caller_b, caller_c],
      handler_of = [(''DriverEntry'', handler_a), (''sub_2000'', handler_b),
                    (''sub_3000'', handler_c)],
      children_of = [(''DispatchA'', [child_memcpy, child_lost, child_map, child_plain]),
                     (''DispatchC'', [child_lost])],
      description_of = [(''memcpy'', ''# MEM # copies n bytes''),
                        (''sub_1200'', ''# MAP # maps a section''),
                        (''sub_1300'', ''returns a status'')],
      memory_of = [(''sub_1200'', ''a1 is the mapped address''),
                   (''memcpy'', ''a1 is the destination''),
                   (''DispatchA'', ''none''), (''DispatchB'', ''none'')]\<rparr>"




section \<open>Properties of the extractors\<close>

lemma extract_json_loop_find:
  "extract_json_loop raws =
     (case List.find decodes_to_object raws of
        None \<Rightarrow> Inl (RuntimeError NoJsonObject)
      | Some raw \<Rightarrow> Inr (object_of raw))"
proof (induction raws)
  case Nil
  show ?case by simp
next
  case (Cons raw raws)
  show ?case
  proof (cases "decodes_to_object raw")
    case True
    then obtain obj where "json_loads raw = Some (JObj obj)"
      by (auto simp: decodes_to_object_def split: option.splits json.splits)
    then show ?thesis using True by (simp add: object_of_def)
  next
    case False
    then have "extract_json_loop (raw # raws) = extract_json_loop raws"
      by (cases "json_loads raw"; cases "the (json_loads raw)") (simp_all add: decodes_to_object_def)
    then show ?thesis using False Cons.IH by simp
  qed
qed

lemma extract_json_object_loop_find:
  "extract_json_object_loop raws =
     (case List.find decodes_to_object raws of
        None \<Rightarrow> Inl (RuntimeError NoJsonObject)
      | Some raw \<Rightarrow>
          if map_of (object_of raw) ''address'' \<noteq> None \<and>
             map_of (object_of raw) ''func_name'' \<noteq> None
          then Inr (object_of raw)
          else Inl (RuntimeError MissingFields))"
proof (induction raws)
  case Nil
  show ?case by simp
next
  case (Cons raw raws)
  show ?case
  proof (cases "decodes_to_object raw")
    case True
    then obtain obj where "json_loads raw = Some (JObj obj)"
      by (auto simp: decodes_to_object_def split: option.splits json.splits)
    then show ?thesis using True by (simp add: object_of_def)
  next
    case False
    then have "extract_json_object_loop (raw # raws) = extract_json_object_loop raws"
      by (cases "json_loads raw"; cases "the (json_loads raw)") (simp_all add: decodes_to_object_def)
    then show ?thesis using False Cons.IH by simp
  qed
qed

lemma loads_object_a1: "json_loads object_a1 = Some (JObj [(''a'', JNum ''1'')])"
  by code_simp

lemma loads_fenced_a1: "json_loads fenced_a1 = None"
  by code_simp

lemma loads_noisy_a1: "json_loads noisy_a1 = None"
  by code_simp

lemma loads_no_json: "json_loads ''no json here'' = None"
  by code_simp

lemma contents_single: "assistant_contents [assistant_msg c] = [c]"
  by (simp add: assistant_contents_def assistant_msg_def get_def)

text \<open>
  The array extractor of \<open>find_iocreatedevice_refs\<close> is the one extractor that goes on
  to a fenced block and to the span of the brackets.
\<close>

lemma array_extraction_fallbacks:
  "extract_json_result [assistant_msg (''prefix '' @ fence @ ''json\<newline>[1, 2]\<newline>'' @ fence @ '' suffix'')] =
     Inr [JNum ''1'', JNum ''2'']"
  "extract_json_result [assistant_msg ''noise [1, 2] noise''] = Inr [JNum ''1'', JNum ''2'']"
  "extract_json_result [assistant_msg ''no json here''] = Inl (RuntimeError NoJsonArray)"
  by code_simp+

text \<open>
  Claim C1 as stated fails on two of its three inputs: the object in a fenced block and
  the object between noise are not extracted, by either object extractor.
\<close>

theorem object_extraction_no_fallback:
  "extract_json [assistant_msg fenced_a1] = Inl (RuntimeError NoJsonObject) \<and>
   extract_json [assistant_msg noisy_a1] = Inl (RuntimeError NoJsonObject) \<and>
   extract_json_object [assistant_msg fenced_a1] = Inl (RuntimeError NoJsonObject) \<and>
   extract_json_object [assistant_msg noisy_a1] = Inl (RuntimeError NoJsonObject)"
  by (simp add: extract_json_def extract_json_object_def contents_single
      loads_fenced_a1 loads_noisy_a1)

text \<open>
  Claim C1, amended: for every message sequence, the extraction of an object walks
  backward through all the assistant messages and attempts, for each, only to decode the
  entire text; it returns the object of the last assistant message whose whole text
  decodes to an object (\<open>extract_json_object\<close> then requires the keys \<open>address\<close> and
  \<open>func_name\<close> and raises without them) and raises the extraction error when there is
  none. The text \<open>{"a":1}\<close> extracts to that object with \<open>extract_json\<close>; the same object in
  a fenced block with prose around it, the same object between noise, and a text without
  JSON all raise the extraction error.
\<close>

theorem object_extraction_whole_text:
  "extract_json responses =
     (case List.find decodes_to_object (rev (assistant_contents responses)) of
        None \<Rightarrow> Inl (RuntimeError NoJsonObject)
      | Some raw \<Rightarrow> Inr (object_of raw)) \<and>
   extract_json_object responses =
     (case List.find decodes_to_object (rev (assistant_contents responses)) of
        None \<Rightarrow> Inl (RuntimeError NoJsonObject)
      | Some raw \<Rightarrow>
          if map_of (object_of raw) ''address'' \<noteq> None \<and>
             map_of (object_of raw) ''func_name'' \<noteq> None
          then Inr (object_of raw)
          else Inl (RuntimeError MissingFields)) \<and>
   decodes_to_object raw = (\<exists>obj. json_loads raw = Some (JObj obj)) \<and>
   extract_json [assistant_msg object_a1] = Inr [(''a'', JNum ''1'')] \<and>
   extract_json_object [assistant_msg object_a1] = Inl (RuntimeError MissingFields) \<and>
   extract_json [assistant_msg fenced_a1] = Inl (RuntimeError NoJsonObject) \<and>
   extract_json [assistant_msg noisy_a1] = Inl (RuntimeError NoJsonObject) \<and>
   extract_json [assistant_msg ''no json here''] = Inl (RuntimeError NoJsonObject)"
proof (intro conjI)
  show "extract_json responses =
     (case List.find decodes_to_object (rev (assistant_contents responses)) of
        None \<Rightarrow> Inl (RuntimeError NoJsonObject)
      | Some raw \<Rightarrow> Inr (object_of raw))"
    unfolding extract_json_def by (rule extract_json_loop_find)
  show "extract_json_object responses =
     (case List.find decodes_to_object (rev (assistant_contents responses)) of
        None \<Rightarrow> Inl (RuntimeError NoJsonObject)
      | Some raw \<Rightarrow>
          if map_of (object_of raw) ''address'' \<noteq> None \<and>
             map_of (object_of raw) ''func_name'' \<noteq> None
          then Inr (object_of raw)
          else Inl (RuntimeError MissingFields))"
    unfolding extract_json_object_def by (rule extract_json_object_loop_find)
  show "decodes_to_object raw = (\<exists>obj. json_loads raw = Some (JObj obj))"
    by (cases "json_loads raw"; cases "the (json_loads raw)") (simp_all add: decodes_to_object_def)
  show "extract_json [assistant_msg object_a1] = Inr [(''a'', JNum ''1'')]"
    by (simp add: extract_json_def contents_single loads_object_a1)
  show "extract_json_object [assistant_msg object_a1] = Inl (RuntimeError MissingFields)"
    by (simp add: extract_json_object_def contents_single loads_object_a1)
  show "extract_json [assistant_msg fenced_a1] = Inl (RuntimeError NoJsonObject)"
    by (simp add: extract_json_def contents_single loads_fenced_a1)
  show "extract_json [assistant_msg noisy_a1] = Inl (RuntimeError NoJsonObject)"
    by (simp add: extract_json_def contents_single loads_noisy_a1)
  show "extract_json [assistant_msg ''no json here''] = Inl (RuntimeError NoJsonObject)"
    by (simp add: extract_json_def contents_single loads_no_json)
qed

theorem object_extraction_whole_text_witness:
  "List.find decodes_to_object
     (rev (assistant_contents [assistant_msg object_a1, assistant_msg noisy_a1])) = Some object_a1 \<and>
   extract_json [assistant_msg object_a1, assistant_msg noisy_a1] = Inr [(''a'', JNum ''1'')]"
proof -
  have c: "assistant_contents [assistant_msg object_a1, assistant_msg noisy_a1] = [object_a1, noisy_a1]"
    by (simp add: assistant_contents_def assistant_msg_def get_def)
  have d: "decodes_to_object object_a1" "\<not> decodes_to_object noisy_a1"
    by (simp_all add: decodes_to_object_def loads_object_a1 loads_noisy_a1)
  have o: "object_of object_a1 = [(''a'', JNum ''1'')]"
    by (simp add: object_of_def loads_object_a1)
  show ?thesis
    using c d o
      object_extraction_whole_text [of "[assistant_msg object_a1, assistant_msg noisy_a1]" object_a1]
    by simp
qed

section \<open>Properties of the analysis steps\<close>

lemma run_bot_requests: "requests (snd (run_bot bk req w)) = requests w @ [req]"
  by (simp add: run_bot_def)

lemma describe_internal_missing:
  "get entry ''address'' = None \<or> get entry ''name'' = None \<Longrightarrow>
   describe_internal_function bk entry w = (Inl ValueError, w)"
  by (auto simp: describe_internal_function_def split: option.splits)

lemma describe_external_missing:
  "get entry ''address'' = None \<or> get entry ''name'' = None \<Longrightarrow>
   describe_external_function bk entry w = (Inl ValueError, w)"
  by (auto simp: describe_external_function_def split: option.splits)

lemma analyze_memory_param_missing:
  "get target ''address'' = None \<or> get target ''func_name'' = None \<Longrightarrow>
   analyze_memory_param bk target w = (Inl ValueError, w)"
  by (auto simp: analyze_memory_param_def split: option.splits)

lemma analyze_irp_missing:
  "get target ''address'' = None \<or> get target ''func_name'' = None \<Longrightarrow>
   analyze_irp_memory_access bk target ctx sink w = ((Inl ValueError, sink), w)"
  by (auto simp: analyze_irp_memory_access_def split: option.splits)

lemma describe_internal_present:
  "get entry ''address'' = Some a \<Longrightarrow> get entry ''name'' = Some n \<Longrightarrow>
   describe_internal_function bk entry w =
     ((case bk (requests w) (DescribeInternalReq n a) of
         Inl e \<Rightarrow> Inl e
       | Inr rs \<Rightarrow> extract_markdown rs),
      w\<lparr>requests := requests w @ [DescribeInternalReq n a]\<rparr>)"
  by (simp add: describe_internal_function_def run_bot_def split: sum.splits)

lemma analyze_memory_param_present:
  "get target ''address'' = Some a \<Longrightarrow> get target ''func_name'' = Some n \<Longrightarrow>
   analyze_memory_param bk target w =
     ((case bk (requests w) (MemoryParamReq n a) of
         Inl e \<Rightarrow> Inl e
       | Inr rs \<Rightarrow> extract_json rs),
      w\<lparr>requests := requests w @ [MemoryParamReq n a]\<rparr>)"
  by (simp add: analyze_memory_param_def run_bot_def split: sum.splits)

lemma analyze_irp_present:
  "get target ''address'' = Some a \<Longrightarrow> get target ''func_name'' = Some n \<Longrightarrow>
   requests (snd (analyze_irp_memory_access bk target ctx sink w)) =
     requests w @ [IrpAccessReq n a (case ctx of None \<Rightarrow> [] | Some c \<Rightarrow> c)]"
  by (simp add: analyze_irp_memory_access_def run_bot_def Let_def split: sum.splits)

lemma cache_update_requests: "requests (snd (cache_update c n m a w)) = requests w"
  by (simp add: cache_update_def write_cache_def Let_def)

lemma describe_external_hit:
  assumes "get entry ''address'' = Some a" "get entry ''name'' = Some n"
    "cache_lookup (load_cache w) n = Some r"
  shows "fst (describe_external_function bk entry w) = Inr (rec_markdown r)"
    and "requests (snd (describe_external_function bk entry w)) = requests w"
  using assms by (simp_all add: describe_external_function_def Let_def cache_update_requests)

lemma dict_set_fresh: "k \<notin> fst ` set d \<Longrightarrow> dict_set d k v = d @ [(k, v)]"
  by (induction d) auto

lemma map_of_dict_set: "map_of (dict_set d k v) k' = (if k' = k then Some v else map_of d k')"
  by (induction d) auto

lemma map_fst_dict_set:
  "map fst (dict_set d k v) = (if k \<in> set (map fst d) then map fst d else map fst d @ [k])"
proof (induction d)
  case Nil
  show ?case by simp
next
  case (Cons p d)
  obtain k' v' where p: "p = (k', v')" by (cases p)
  show ?case
    using Cons.IH p by (cases "k' = k") simp_all
qed

lemma distinct_dict_set: "distinct (map fst d) \<Longrightarrow> distinct (map fst (dict_set d k v))"
  by (simp add: map_fst_dict_set)

lemma list_all_dict_set: "list_all P d \<Longrightarrow> P (k, v) \<Longrightarrow> list_all P (dict_set d k v)"
  by (induction d) auto

lemma wf_dict_set:
  "wf_cache c \<Longrightarrow> rec_name r \<noteq> [] \<Longrightarrow> wf_cache (dict_set c (lower (rec_name r)) r)"
  by (simp add: wf_cache_def distinct_dict_set list_all_dict_set)

lemma wf_foldl: "wf_cache acc \<Longrightarrow> wf_cache (foldl load_step acc recs)"
  by (induction recs arbitrary: acc) (auto simp: load_step_def wf_dict_set)

lemma wf_load_cache: "wf_cache (load_cache w)"
proof -
  have "wf_cache []" by (simp add: wf_cache_def)
  then have "wf_cache (foldl load_step [] recs)" for recs by (rule wf_foldl)
  then show ?thesis
    by (auto simp: load_cache_def wf_cache_def split: option.splits)
qed

lemma foldl_roundtrip: "wf_cache (acc @ c) \<Longrightarrow> foldl load_step acc (map snd c) = acc @ c"
proof (induction c arbitrary: acc)
  case Nil
  show ?case by simp
next
  case (Cons p c)
  obtain k r where p: "p = (k, r)" by (cases p)
  from Cons.prems p have k: "k = lower (rec_name r)" "rec_name r \<noteq> []" "k \<notin> fst ` set acc"
    by (auto simp: wf_cache_def image_iff)
  then have "load_step acc r = acc @ [(k, r)]"
    by (simp add: load_step_def dict_set_fresh)
  moreover have "wf_cache ((acc @ [(k, r)]) @ c)"
    using Cons.prems p by simp
  ultimately show ?case
    using Cons.IH [of "acc @ [(k, r)]"] p by simp
qed

lemma load_write: "wf_cache c \<Longrightarrow> load_cache (write_cache c w) = c"
  using foldl_roundtrip [of "[]" c]
  by (simp add: load_cache_def write_cache_def)

lemma load_cache_requests: "load_cache (w\<lparr>requests := q\<rparr>) = load_cache w"
  by (simp add: load_cache_def)

lemma map_of_None_fresh: "map_of d k = None \<Longrightarrow> k \<notin> fst ` set d"
  by (simp add: map_of_eq_None_iff)

lemma describe_external_present:
  assumes "get entry ''address'' = Some a" "get entry ''name'' = Some n"
  shows "describe_external_function bk entry w =
    (case cache_lookup (load_cache w) n of
       Some cached \<Rightarrow>
         (Inr (rec_markdown cached),
          if a \<in> set (rec_addresses cached) then w
          else w\<lparr>cache_file := Some (map snd (dict_set (load_cache w) (lower n)
                  (cached\<lparr>rec_addresses := rec_addresses cached @ [a]\<rparr>)))\<rparr>)
     | None \<Rightarrow>
         (case bk (requests w) (DescribeExternalReq n a) of
            Inl e \<Rightarrow> (Inl e, w\<lparr>requests := requests w @ [DescribeExternalReq n a]\<rparr>)
          | Inr rs \<Rightarrow>
              (case extract_markdown rs of
                 Inl e \<Rightarrow> (Inl e, w\<lparr>requests := requests w @ [DescribeExternalReq n a]\<rparr>)
               | Inr md \<Rightarrow>
                   (Inr md,
                    w\<lparr>requests := requests w @ [DescribeExternalReq n a],
                      cache_file := Some (map snd (load_cache w) @
                        [\<lparr>rec_name = n, rec_markdown = md, rec_addresses = [a]\<rparr>])\<rparr>))))"
proof (cases "cache_lookup (load_cache w) n")
  case None
  then have fresh: "lower n \<notin> fst ` set (load_cache w)"
    by (simp add: cache_lookup_def map_of_None_fresh)
  have none: "map_of (load_cache w) (lower n) = None"
    using None by (simp add: cache_lookup_def)
  show ?thesis
    using assms None none
    by (simp add: describe_external_function_def Let_def run_bot_def cache_update_def
        write_cache_def dict_set_fresh [OF fresh] split: sum.splits)
next
  case (Some cached)
  then have some: "map_of (load_cache w) (lower n) = Some cached"
    by (simp add: cache_lookup_def)
  show ?thesis
    using assms Some some
    by (simp add: describe_external_function_def Let_def cache_update_def write_cache_def)
qed

lemma analyze_irp_full:
  assumes "get target ''address'' = Some a" "get target ''func_name'' = Some n"
  shows "analyze_irp_memory_access bk target ctx sink w =
    (case bk (requests w) (IrpAccessReq n a (case ctx of None \<Rightarrow> [] | Some c \<Rightarrow> c)) of
       Inl e \<Rightarrow>
         ((Inl e, sink),
          w\<lparr>requests := requests w @ [IrpAccessReq n a (case ctx of None \<Rightarrow> [] | Some c \<Rightarrow> c)]\<rparr>)
     | Inr rs \<Rightarrow>
         ((extract_markdown rs,
           map_option (\<lambda>s. s @ [\<lparr>t_target = target,
              t_messages = IrpAccessReq n a (case ctx of None \<Rightarrow> [] | Some c \<Rightarrow> c),
              t_responses = rs\<rparr>]) sink),
          w\<lparr>requests := requests w @ [IrpAccessReq n a (case ctx of None \<Rightarrow> [] | Some c \<Rightarrow> c)],
            log_file := log_file w @ [\<lparr>t_target = target,
              t_messages = IrpAccessReq n a (case ctx of None \<Rightarrow> [] | Some c \<Rightarrow> c),
              t_responses = rs\<rparr>]\<rparr>))"
  using assms
  by (simp add: analyze_irp_memory_access_def run_bot_def Let_def split: sum.splits)

lemma wf_lookup:
  assumes "wf_cache c" "map_of c k = Some r"
  shows "k = lower (rec_name r)" "rec_name r \<noteq> []"
proof -
  from assms(2) have "(k, r) \<in> set c" by (rule map_of_SomeD)
  with assms(1) show "k = lower (rec_name r)" "rec_name r \<noteq> []"
    by (auto simp: wf_cache_def list_all_iff)
qed

lemma external_miss_reload:
  assumes "get entry ''address'' = Some a" "get entry ''name'' = Some n" "n \<noteq> []"
    and "cache_lookup (load_cache w) n = None"
    and "bk (requests w) (DescribeExternalReq n a) = Inr rs" "extract_markdown rs = Inr md"
  shows "load_cache (snd (describe_external_function bk entry w)) =
    load_cache w @ [(lower n, \<lparr>rec_name = n, rec_markdown = md, rec_addresses = [a]\<rparr>)]"
proof -
  let ?r = "\<lparr>rec_name = n, rec_markdown = md, rec_addresses = [a]\<rparr>"
  have fresh: "lower n \<notin> fst ` set (load_cache w)"
    using assms(4) by (simp add: cache_lookup_def map_of_None_fresh)
  have "wf_cache (dict_set (load_cache w) (lower (rec_name ?r)) ?r)"
    using assms(3) by (intro wf_dict_set wf_load_cache) simp
  then have wf: "wf_cache (load_cache w @ [(lower n, ?r)])"
    using fresh by (simp add: dict_set_fresh)
  have "snd (describe_external_function bk entry w) =
      write_cache (load_cache w @ [(lower n, ?r)])
        (w\<lparr>requests := requests w @ [DescribeExternalReq n a]\<rparr>)"
    using assms by (simp add: describe_external_present write_cache_def)
  then show ?thesis
    using wf by (simp add: load_write)
qed

lemma external_hit_reload:
  assumes "get entry ''address'' = Some b" "get entry ''name'' = Some n"
    and "cache_lookup (load_cache w) n = Some cached"
  shows "cache_lookup (load_cache (snd (describe_external_function bk entry w))) n =
    Some (cached\<lparr>rec_addresses :=
      (if b \<in> set (rec_addresses cached) then rec_addresses cached
       else rec_addresses cached @ [b])\<rparr>)"
proof (cases "b \<in> set (rec_addresses cached)")
  case True
  then show ?thesis
    using assms by (simp add: describe_external_present)
next
  case False
  let ?r = "cached\<lparr>rec_addresses := rec_addresses cached @ [b]\<rparr>"
  have m: "map_of (load_cache w) (lower n) = Some cached"
    using assms(3) by (simp add: cache_lookup_def)
  have k: "lower n = lower (rec_name cached)" "rec_name cached \<noteq> []"
    using wf_lookup [OF wf_load_cache m] by simp_all
  have "wf_cache (dict_set (load_cache w) (lower (rec_name ?r)) ?r)"
    using k by (intro wf_dict_set wf_load_cache) simp
  then have wf: "wf_cache (dict_set (load_cache w) (lower n) ?r)"
    using k by simp
  have "snd (describe_external_function bk entry w) =
      write_cache (dict_set (load_cache w) (lower n) ?r) w"
    using assms False by (simp add: describe_external_present write_cache_def)
  then show ?thesis
    using wf False by (simp add: load_write cache_lookup_def map_of_dict_set)
qed

lemma external_hit_result:
  assumes "get entry ''address'' = Some b" "get entry ''name'' = Some n"
    and "cache_lookup (load_cache w) n = Some cached"
  shows "fst (describe_external_function bk entry w) = Inr (rec_markdown cached)"
    and "requests (snd (describe_external_function bk entry w)) = requests w"
  using assms by (simp_all add: describe_external_present)




lemma dict_set_last:
  "k \<notin> fst ` set d \<Longrightarrow> dict_set (d @ [(k, v)]) k v' = d @ [(k, v')]"
  by (induction d) auto

lemma external_second_call:
  assumes e1: "get entry ''address'' = Some a" "get entry ''name'' = Some n" "n \<noteq> []"
    and miss: "cache_lookup (load_cache w) n = None"
    and ok: "bk (requests w) (DescribeExternalReq n a) = Inr rs" "extract_markdown rs = Inr md"
    and e2: "get again ''address'' = Some b" "get again ''name'' = Some n"
  shows "describe_external_function bk2 again (snd (describe_external_function bk entry w)) =
    (Inr md,
     w\<lparr>requests := requests w @ [DescribeExternalReq n a],
       cache_file := Some (map snd (load_cache w) @
         [\<lparr>rec_name = n, rec_markdown = md,
           rec_addresses = (if b = a then [a] else [a, b])\<rparr>])\<rparr>)"
proof -
  let ?r = "\<lparr>rec_name = n, rec_markdown = md, rec_addresses = [a]\<rparr>"
  let ?w1 = "snd (describe_external_function bk entry w)"
  have fresh: "lower n \<notin> fst ` set (load_cache w)"
    using miss by (simp add: cache_lookup_def map_of_None_fresh)
  have none: "map_of (load_cache w) (lower n) = None"
    using miss by (simp add: cache_lookup_def)
  have l: "load_cache ?w1 = load_cache w @ [(lower n, ?r)]"
    using e1 miss ok by (rule external_miss_reload)
  then have hit: "cache_lookup (load_cache ?w1) n = Some ?r"
    using none by (simp add: cache_lookup_def map_add_def)
  have w1: "?w1 = w\<lparr>requests := requests w @ [DescribeExternalReq n a],
       cache_file := Some (map snd (load_cache w) @ [?r])\<rparr>"
    using e1 miss ok by (simp add: describe_external_present)
  show ?thesis
    using describe_external_present [OF e2, of bk2 ?w1] hit l dict_set_last [OF fresh]
    by (simp add: w1)
qed

lemma reload_appended:
  assumes "rec_name r \<noteq> []" "lower (rec_name r) \<notin> fst ` set (load_cache w)"
  shows "load_cache (w\<lparr>requests := q, cache_file := Some (map snd (load_cache w) @ [r])\<rparr>) =
    load_cache w @ [(lower (rec_name r), r)]"
proof -
  have "wf_cache (dict_set (load_cache w) (lower (rec_name r)) r)"
    using assms(1) by (intro wf_dict_set wf_load_cache)
  then have wf: "wf_cache (load_cache w @ [(lower (rec_name r), r)])"
    using assms(2) by (simp add: dict_set_fresh)
  have "w\<lparr>requests := q, cache_file := Some (map snd (load_cache w) @ [r])\<rparr> =
      write_cache (load_cache w @ [(lower (rec_name r), r)]) (w\<lparr>requests := q\<rparr>)"
    by (simp add: write_cache_def)
  then show ?thesis
    using wf by (simp add: load_write)
qed

text \<open>A handler that is resolved carries its address and its name.\<close>

lemma object_loop_keys:
  "extract_json_object_loop raws = Inr obj \<Longrightarrow>
   map_of obj ''address'' \<noteq> None \<and> map_of obj ''func_name'' \<noteq> None"
proof (induction raws)
  case Nil
  then show ?case by simp
next
  case (Cons raw raws)
  show ?case
  proof (cases "json_loads raw")
    case None
    then show ?thesis using Cons by simp
  next
    case (Some v)
    show ?thesis
    proof (cases v)
      case (JObj parsed)
      then show ?thesis
        using Cons.prems Some by (simp split: if_splits)
    qed (use Cons Some in simp_all)
  qed
qed

lemma resolved_handler_has_keys:
  assumes "analyze_major_function_target bk target w = (Inr handler, w1)"
  shows "map_of handler ''address'' \<noteq> None \<and> map_of handler ''func_name'' \<noteq> None"
proof -
  from assms obtain rs where "extract_json_object rs = Inr handler"
    by (auto simp: analyze_major_function_target_def run_bot_def
        split: option.splits sum.splits prod.splits)
  then show ?thesis
    using object_loop_keys by (simp add: extract_json_object_def)
qed

text \<open>
  Claim C9 as stated fails on a target whose address and name are present and empty:
  no validation error is raised, and the backend is asked.
\<close>

theorem empty_fields_pass_validation:
  "describe_internal_function silent_backend [(''address'', ''''), (''name'', '''')] empty_world =
     (Inl (RuntimeError NoAssistantOutput),
      empty_world\<lparr>requests := [DescribeInternalReq '''' '''']\<rparr>) \<and>
   analyze_memory_param silent_backend [(''address'', ''''), (''func_name'', '''')] empty_world =
     (Inl (RuntimeError NoJsonObject),
      empty_world\<lparr>requests := [MemoryParamReq '''' '''']\<rparr>)"
  by (simp add: describe_internal_function_def analyze_memory_param_def run_bot_def get_def
      silent_backend_def empty_world_def extract_markdown_def extract_json_def
      assistant_contents_def)

text \<open>
  Claim C9, amended: every description step and memory-analysis step fails fast at step
  entry, raising \<open>ValueError\<close> before any backend interaction (the world is unchanged),
  whenever its input lacks the \<open>address\<close> key or the name key (\<open>name\<close> for a description
  step, \<open>func_name\<close> for a memory-analysis step). With both keys present, whether their
  values are empty or not, no validation error is raised and the step does what follows
  its check: the internal description step and the two memory-analysis steps run their
  conversation and return the backend's exception or the extraction of the reply (the
  IRP analysis after appending the transcript to the log and the sink); the external
  description step looks the name up in its cache, returns the cached markdown on a hit
  and runs its conversation on a miss.
\<close>

theorem step_entry_validation:
  "(get entry ''address'' = None \<or> get entry ''name'' = None \<longrightarrow>
      describe_internal_function bk entry w = (Inl ValueError, w) \<and>
      describe_external_function bk entry w = (Inl ValueError, w)) \<and>
   (get target ''address'' = None \<or> get target ''func_name'' = None \<longrightarrow>
      analyze_memory_param bk target w = (Inl ValueError, w) \<and>
      analyze_irp_memory_access bk target ctx sink w = ((Inl ValueError, sink), w)) \<and>
   (get entry ''address'' = Some a \<and> get entry ''name'' = Some n \<longrightarrow>
      describe_internal_function bk entry w =
        ((case bk (requests w) (DescribeInternalReq n a) of
            Inl e \<Rightarrow> Inl e
          | Inr rs \<Rightarrow> extract_markdown rs),
         w\<lparr>requests := requests w @ [DescribeInternalReq n a]\<rparr>) \<and>
      describe_external_function bk entry w =
        (case cache_lookup (load_cache w) n of
           Some cached \<Rightarrow>
             (Inr (rec_markdown cached),
              if a \<in> set (rec_addresses cached) then w
              else w\<lparr>cache_file := Some (map snd (dict_set (load_cache w) (lower n)
                      (cached\<lparr>rec_addresses := rec_addresses cached @ [a]\<rparr>)))\<rparr>)
         | None \<Rightarrow>
             (case bk (requests w) (DescribeExternalReq n a) of
                Inl e \<Rightarrow> (Inl e, w\<lparr>requests := requests w @ [DescribeExternalReq n a]\<rparr>)
              | Inr rs \<Rightarrow>
                  (case extract_markdown rs of
                     Inl e \<Rightarrow> (Inl e, w\<lparr>requests := requests w @ [DescribeExternalReq n a]\<rparr>)
                   | Inr md \<Rightarrow>
                       (Inr md,
                        w\<lparr>requests := requests w @ [DescribeExternalReq n a],
                          cache_file := Some (map snd (load_cache w) @
                            [\<lparr>rec_name = n, rec_markdown = md, rec_addresses = [a]\<rparr>])\<rparr>))))) \<and>
   (get target ''address'' = Some a \<and> get target ''func_name'' = Some n \<longrightarrow>
      analyze_memory_param bk target w =
        ((case bk (requests w) (MemoryParamReq n a) of
            Inl e \<Rightarrow> Inl e
          | Inr rs \<Rightarrow> extract_json rs),
         w\<lparr>requests := requests w @ [MemoryParamReq n a]\<rparr>) \<and>
      analyze_irp_memory_access bk target ctx sink w =
        (case bk (requests w) (IrpAccessReq n a (case ctx of None \<Rightarrow> [] | Some c \<Rightarrow> c)) of
           Inl e \<Rightarrow>
             ((Inl e, sink),
              w\<lparr>requests := requests w @
                    [IrpAccessReq n a (case ctx of None \<Rightarrow> [] | Some c \<Rightarrow> c)]\<rparr>)
         | Inr rs \<Rightarrow>
             ((extract_markdown rs,
               map_option (\<lambda>s. s @ [\<lparr>t_target = target,
                  t_messages = IrpAccessReq n a (case ctx of None \<Rightarrow> [] | Some c \<Rightarrow> c),
                  t_responses = rs\<rparr>]) sink),
              w\<lparr>requests := requests w @
                    [IrpAccessReq n a (case ctx of None \<Rightarrow> [] | Some c \<Rightarrow> c)],
                log_file := log_file w @ [\<lparr>t_target = target,
                  t_messages = IrpAccessReq n a (case ctx of None \<Rightarrow> [] | Some c \<Rightarrow> c),
                  t_responses = rs\<rparr>]\<rparr>)))"
proof (intro conjI impI)
  assume m: "get entry ''address'' = None \<or> get entry ''name'' = None"
  show "describe_internal_function bk entry w = (Inl ValueError, w)"
    using m by (rule describe_internal_missing)
  show "describe_external_function bk entry w = (Inl ValueError, w)"
    using m by (rule describe_external_missing)
next
  assume m: "get target ''address'' = None \<or> get target ''func_name'' = None"
  show "analyze_memory_param bk target w = (Inl ValueError, w)"
    using m by (rule analyze_memory_param_missing)
  show "analyze_irp_memory_access bk target ctx sink w = ((Inl ValueError, sink), w)"
    using m by (rule analyze_irp_missing)
next
  assume p: "get entry ''address'' = Some a \<and> get entry ''name'' = Some n"
  show "describe_internal_function bk entry w =
        ((case bk (requests w) (DescribeInternalReq n a) of
            Inl e \<Rightarrow> Inl e
          | Inr rs \<Rightarrow> extract_markdown rs),
         w\<lparr>requests := requests w @ [DescribeInternalReq n a]\<rparr>)"
    using p by (simp add: describe_internal_present)
  from p have pa: "get entry ''address'' = Some a" and pn: "get entry ''name'' = Some n"
    by simp_all
  show "describe_external_function bk entry w =
        (case cache_lookup (load_cache w) n of
           Some cached \<Rightarrow>
             (Inr (rec_markdown cached),
              if a \<in> set (rec_addresses cached) then w
              else w\<lparr>cache_file := Some (map snd (dict_set (load_cache w) (lower n)
                      (cached\<lparr>rec_addresses := rec_addresses cached @ [a]\<rparr>)))\<rparr>)
         | None \<Rightarrow>
             (case bk (requests w) (DescribeExternalReq n a) of
                Inl e \<Rightarrow> (Inl e, w\<lparr>requests := requests w @ [DescribeExternalReq n a]\<rparr>)
              | Inr rs \<Rightarrow>
                  (case extract_markdown rs of
                     Inl e \<Rightarrow> (Inl e, w\<lparr>requests := requests w @ [DescribeExternalReq n a]\<rparr>)
                   | Inr md \<Rightarrow>
                       (Inr md,
                        w\<lparr>requests := requests w @ [DescribeExternalReq n a],
                          cache_file := Some (map snd (load_cache w) @
                            [\<lparr>rec_name = n, rec_markdown = md, rec_addresses = [a]\<rparr>])\<rparr>))))"
    by (rule describe_external_present [OF pa pn])
next
  assume p: "get target ''address'' = Some a \<and> get target ''func_name'' = Some n"
  show "analyze_memory_param bk target w =
        ((case bk (requests w) (MemoryParamReq n a) of
            Inl e \<Rightarrow> Inl e
          | Inr rs \<Rightarrow> extract_json rs),
         w\<lparr>requests := requests w @ [MemoryParamReq n a]\<rparr>)"
    using p by (simp add: analyze_memory_param_present)
  from p have pa: "get target ''address'' = Some a" and pn: "get target ''func_name'' = Some n"
    by simp_all
  show "analyze_irp_memory_access bk target ctx sink w =
        (case bk (requests w) (IrpAccessReq n a (case ctx of None \<Rightarrow> [] | Some c \<Rightarrow> c)) of
           Inl e \<Rightarrow>
             ((Inl e, sink),
              w\<lparr>requests := requests w @
                    [IrpAccessReq n a (case ctx of None \<Rightarrow> [] | Some c \<Rightarrow> c)]\<rparr>)
         | Inr rs \<Rightarrow>
             ((extract_markdown rs,
               map_option (\<lambda>s. s @ [\<lparr>t_target = target,
                  t_messages = IrpAccessReq n a (case ctx of None \<Rightarrow> [] | Some c \<Rightarrow> c),
                  t_responses = rs\<rparr>]) sink),
              w\<lparr>requests := requests w @
                    [IrpAccessReq n a (case ctx of None \<Rightarrow> [] | Some c \<Rightarrow> c)],
                log_file := log_file w @ [\<lparr>t_target = target,
                  t_messages = IrpAccessReq n a (case ctx of None \<Rightarrow> [] | Some c \<Rightarrow> c),
                  t_responses = rs\<rparr>]\<rparr>))"
    by (rule analyze_irp_full [OF pa pn])
qed

theorem step_entry_validation_witness:
  "describe_internal_function silent_backend [(''address'', ''0x1'')] empty_world =
     (Inl ValueError, empty_world) \<and>
   describe_external_function silent_backend [(''address'', ''0x1'')] empty_world =
     (Inl ValueError, empty_world) \<and>
   analyze_irp_memory_access silent_backend [(''func_name'', ''f'')] None None empty_world =
     ((Inl ValueError, None), empty_world) \<and>
   describe_internal_function silent_backend [(''address'', ''''), (''name'', '''')] empty_world =
     (Inl (RuntimeError NoAssistantOutput),
      empty_world\<lparr>requests := [DescribeInternalReq '''' '''']\<rparr>) \<and>
   describe_external_function silent_backend [(''address'', ''''), (''name'', '''')] empty_world =
     (Inl (RuntimeError NoAssistantOutput),
      empty_world\<lparr>requests := [DescribeExternalReq '''' '''']\<rparr>) \<and>
   analyze_irp_memory_access silent_backend [(''address'', ''0x1''), (''func_name'', ''f'')]
     None None empty_world =
     ((Inl (RuntimeError NoAssistantOutput), None),
      empty_world\<lparr>requests := [IrpAccessReq ''f'' ''0x1'' ''''],
        log_file := [\<lparr>t_target = [(''address'', ''0x1''), (''func_name'', ''f'')],
          t_messages = IrpAccessReq ''f'' ''0x1'' '''', t_responses = []\<rparr>]\<rparr>)"
proof -
  have e: "requests empty_world = []" "log_file empty_world = []"
    "cache_lookup (load_cache empty_world) '''' = None"
    by (simp_all add: empty_world_def load_cache_def cache_lookup_def)
  have x: "extract_markdown [] = Inl (RuntimeError NoAssistantOutput)"
    by (simp add: extract_markdown_def assistant_contents_def)
  show ?thesis
    using e x
      step_entry_validation [where entry = "[(''address'', ''0x1'')]"
        and target = "[(''func_name'', ''f'')]" and bk = silent_backend and w = empty_world
        and ctx = None and sink = None]
      step_entry_validation [where entry = "[(''address'', ''''), (''name'', '''')]"
        and target = "[(''address'', ''0x1''), (''func_name'', ''f'')]" and bk = silent_backend
        and w = empty_world and ctx = None and sink = None and a = "''''" and n = "''''"]
      step_entry_validation [where entry = "[(''address'', ''''), (''name'', '''')]"
        and target = "[(''address'', ''0x1''), (''func_name'', ''f'')]" and bk = silent_backend
        and w = empty_world and ctx = None and sink = None and a = "''0x1''" and n = "''f''"]
    by (simp add: get_def silent_backend_def)
qed

text \<open>
  Claim C5 as stated fails for an internal child: with the name in the cache, the
  description is not served from the cache and a backend conversation is run.
\<close>

theorem internal_description_not_cached:
  "describe_internal_function fresh_backend [(''address'', ''0x10''), (''name'', ''memcpy'')]
     cached_world =
     (Inr ''fresh'', cached_world\<lparr>requests := [DescribeInternalReq ''memcpy'' ''0x10'']\<rparr>) \<and>
   cache_lookup (load_cache cached_world) ''memcpy'' =
     Some \<lparr>rec_name = ''memcpy'', rec_markdown = ''cached'', rec_addresses = [''0x10'']\<rparr>"
  by (simp add: describe_internal_function_def run_bot_def get_def fresh_backend_def
      cached_world_def empty_world_def extract_markdown_def assistant_contents_def
      assistant_msg_def strip_def is_space_def cache_lookup_def load_cache_def load_step_def lower_def
      lower_char_def)

text \<open>
  Claim C5, amended: the describe-function step caches its markdown for external
  children only. For an external child, a description call whose name is in the cache
  returns the cached markdown and makes no backend request (it only adds a new address
  to the record); a call whose name is not in the cache runs the conversation and, when
  the markdown is extracted, appends a record with that markdown to the cache file, where
  the next lookup of the name, if it is not empty, finds it. A description call for an
  internal child never reads or writes the cache: whatever the cache holds it makes its
  backend request, and its result is the backend's exception or the extraction of the
  reply.
\<close>

theorem description_cache_external_only:
  "(get entry ''address'' = Some a \<and> get entry ''name'' = Some n \<longrightarrow>
      describe_external_function bk entry w =
        (case cache_lookup (load_cache w) n of
           Some cached \<Rightarrow>
             (Inr (rec_markdown cached),
              if a \<in> set (rec_addresses cached) then w
              else w\<lparr>cache_file := Some (map snd (dict_set (load_cache w) (lower n)
                      (cached\<lparr>rec_addresses := rec_addresses cached @ [a]\<rparr>)))\<rparr>)
         | None \<Rightarrow>
             (case bk (requests w) (DescribeExternalReq n a) of
                Inl e \<Rightarrow> (Inl e, w\<lparr>requests := requests w @ [DescribeExternalReq n a]\<rparr>)
              | Inr rs \<Rightarrow>
                  (case extract_markdown rs of
                     Inl e \<Rightarrow> (Inl e, w\<lparr>requests := requests w @ [DescribeExternalReq n a]\<rparr>)
                   | Inr md \<Rightarrow>
                       (Inr md,
                        w\<lparr>requests := requests w @ [DescribeExternalReq n a],
                          cache_file := Some (map snd (load_cache w) @
                            [\<lparr>rec_name = n, rec_markdown = md, rec_addresses = [a]\<rparr>])\<rparr>)))) \<and>
      describe_internal_function bk entry w =
        ((case bk (requests w) (DescribeInternalReq n a) of
            Inl e \<Rightarrow> Inl e
          | Inr rs \<Rightarrow> extract_markdown rs),
         w\<lparr>requests := requests w @ [DescribeInternalReq n a]\<rparr>)) \<and>
   (get entry ''address'' = Some a \<and> get entry ''name'' = Some n \<and> n \<noteq> [] \<and>
    cache_lookup (load_cache w) n = None \<and>
    bk (requests w) (DescribeExternalReq n a) = Inr replies \<and>
    extract_markdown replies = Inr markdown \<longrightarrow>
      cache_lookup (load_cache (snd (describe_external_function bk entry w))) n =
        Some \<lparr>rec_name = n, rec_markdown = markdown, rec_addresses = [a]\<rparr>)"
proof (intro conjI impI)
  assume p: "get entry ''address'' = Some a \<and> get entry ''name'' = Some n"
  then have pa: "get entry ''address'' = Some a" and pn: "get entry ''name'' = Some n"
    by simp_all
  show "describe_external_function bk entry w =
        (case cache_lookup (load_cache w) n of
           Some cached \<Rightarrow>
             (Inr (rec_markdown cached),
              if a \<in> set (rec_addresses cached) then w
              else w\<lparr>cache_file := Some (map snd (dict_set (load_cache w) (lower n)
                      (cached\<lparr>rec_addresses := rec_addresses cached @ [a]\<rparr>)))\<rparr>)
         | None \<Rightarrow>
             (case bk (requests w) (DescribeExternalReq n a) of
                Inl e \<Rightarrow> (Inl e, w\<lparr>requests := requests w @ [DescribeExternalReq n a]\<rparr>)
              | Inr rs \<Rightarrow>
                  (case extract_markdown rs of
                     Inl e \<Rightarrow> (Inl e, w\<lparr>requests := requests w @ [DescribeExternalReq n a]\<rparr>)
                   | Inr md \<Rightarrow>
                       (Inr md,
                        w\<lparr>requests := requests w @ [DescribeExternalReq n a],
                          cache_file := Some (map snd (load_cache w) @
                            [\<lparr>rec_name = n, rec_markdown = md, rec_addresses = [a]\<rparr>])\<rparr>))))"
    by (rule describe_external_present [OF pa pn])
  show "describe_internal_function bk entry w =
        ((case bk (requests w) (DescribeInternalReq n a) of
            Inl e \<Rightarrow> Inl e
          | Inr rs \<Rightarrow> extract_markdown rs),
         w\<lparr>requests := requests w @ [DescribeInternalReq n a]\<rparr>)"
    using pa pn by (simp add: describe_internal_present)
next
  assume h: "get entry ''address'' = Some a \<and> get entry ''name'' = Some n \<and> n \<noteq> [] \<and>
    cache_lookup (load_cache w) n = None \<and>
    bk (requests w) (DescribeExternalReq n a) = Inr replies \<and>
    extract_markdown replies = Inr markdown"
  then have "load_cache (snd (describe_external_function bk entry w)) =
      load_cache w @ [(lower n, \<lparr>rec_name = n, rec_markdown = markdown, rec_addresses = [a]\<rparr>)]"
    using external_miss_reload [of entry a n w bk replies markdown] by simp
  moreover have "map_of (load_cache w) (lower n) = None"
    using h by (simp add: cache_lookup_def)
  ultimately show "cache_lookup (load_cache (snd (describe_external_function bk entry w))) n =
        Some \<lparr>rec_name = n, rec_markdown = markdown, rec_addresses = [a]\<rparr>"
    by (simp add: cache_lookup_def map_add_def)
qed

theorem description_cache_external_only_witness:
  "describe_external_function fresh_backend [(''address'', ''0x10''), (''name'', ''memcpy'')]
     cached_world = (Inr ''cached'', cached_world) \<and>
   describe_internal_function fresh_backend [(''address'', ''0x10''), (''name'', ''memcpy'')]
     cached_world =
     (Inr ''fresh'', cached_world\<lparr>requests := [DescribeInternalReq ''memcpy'' ''0x10'']\<rparr>) \<and>
   cache_lookup (load_cache (snd (describe_external_function fresh_backend
     [(''address'', ''0x10''), (''name'', ''memcpy'')] empty_world))) ''memcpy'' =
     Some \<lparr>rec_name = ''memcpy'', rec_markdown = ''fresh'', rec_addresses = [''0x10'']\<rparr>"
proof -
  have l: "cache_lookup (load_cache cached_world) ''memcpy'' =
      Some \<lparr>rec_name = ''memcpy'', rec_markdown = ''cached'', rec_addresses = [''0x10'']\<rparr>"
    by (simp add: cached_world_def empty_world_def cache_lookup_def load_cache_def load_step_def
        lower_def lower_char_def)
  have q: "requests cached_world = []"
    by (simp add: cached_world_def empty_world_def)
  have m: "cache_lookup (load_cache empty_world) ''memcpy'' = None" "requests empty_world = []"
    by (simp_all add: empty_world_def cache_lookup_def load_cache_def)
  have x: "extract_markdown [assistant_msg ''fresh''] = Inr ''fresh''"
    by (simp add: extract_markdown_def assistant_contents_def assistant_msg_def get_def
        strip_def is_space_def)
  have hit: "describe_external_function fresh_backend [(''address'', ''0x10''), (''name'', ''memcpy'')]
       cached_world = (Inr ''cached'', cached_world) \<and>
     describe_internal_function fresh_backend [(''address'', ''0x10''), (''name'', ''memcpy'')]
       cached_world =
       (Inr ''fresh'', cached_world\<lparr>requests := [DescribeInternalReq ''memcpy'' ''0x10'']\<rparr>)"
    using l q x
      description_cache_external_only [where entry = "[(''address'', ''0x10''), (''name'', ''memcpy'')]"
        and a = "''0x10''" and n = "''memcpy''" and w = cached_world and bk = fresh_backend,
        THEN conjunct1]
    by (simp add: get_def fresh_backend_def)
  have miss: "cache_lookup (load_cache (snd (describe_external_function fresh_backend
       [(''address'', ''0x10''), (''name'', ''memcpy'')] empty_world))) ''memcpy'' =
       Some \<lparr>rec_name = ''memcpy'', rec_markdown = ''fresh'', rec_addresses = [''0x10'']\<rparr>"
    using m x
      description_cache_external_only [where entry = "[(''address'', ''0x10''), (''name'', ''memcpy'')]"
        and a = "''0x10''" and n = "''memcpy''" and w = empty_world and bk = fresh_backend
        and replies = "[assistant_msg ''fresh'']" and markdown = "''fresh''",
        THEN conjunct2]
    by (simp add: get_def fresh_backend_def)
  from hit miss show ?thesis by (intro conjI) simp_all
qed












text \<open>
  Claim C4 as stated fails for the empty name: the record of a successful description is
  written, but \<open>load_cache\<close> passes over a record whose name is empty, so the second call
  for the same name asks the backend again, and the cache file then holds the one record
  of the second call, with the addresses \<open>[B]\<close>.
\<close>

theorem empty_name_never_cached:
  "describe_external_function fresh_backend [(''address'', ''A''), (''name'', '''')] empty_world =
     (Inr ''fresh'',
      empty_world\<lparr>requests := [DescribeExternalReq '''' ''A''],
        cache_file := Some [\<lparr>rec_name = '''', rec_markdown = ''fresh'',
          rec_addresses = [''A'']\<rparr>]\<rparr>) \<and>
   describe_external_function fresh_backend [(''address'', ''B''), (''name'', '''')]
     (snd (describe_external_function fresh_backend [(''address'', ''A''), (''name'', '''')]
        empty_world)) =
     (Inr ''fresh'',
      empty_world\<lparr>requests := [DescribeExternalReq '''' ''A'', DescribeExternalReq '''' ''B''],
        cache_file := Some [\<lparr>rec_name = '''', rec_markdown = ''fresh'',
          rec_addresses = [''B'']\<rparr>]\<rparr>)"
  by (simp add: describe_external_function_def get_def load_cache_def load_step_def
      cache_lookup_def cache_update_def write_cache_def run_bot_def fresh_backend_def
      extract_markdown_def assistant_contents_def assistant_msg_def strip_def is_space_def
      lower_def empty_world_def Let_def)

text \<open>
  Claim C4, amended: for any non-empty function name not previously cached, a successful
  description call of the external step appends to the cache file a record with the
  name, the markdown and the address, which the cache holds under the lowercased name;
  a second description call for the same name (with any address, and whatever the
  backend would answer) returns the identical markdown without a new backend request,
  and calling with addresses A then A again leaves the record's addresses equal to
  \<open>[A]\<close>, while A then B leaves them equal to \<open>[A, B]\<close> in that order.
\<close>

theorem external_description_cache:
  "get entry ''address'' = Some a \<and> get entry ''name'' = Some n \<and> n \<noteq> [] \<and>
   cache_lookup (load_cache w) n = None \<and>
   bk (requests w) (DescribeExternalReq n a) = Inr replies \<and>
   extract_markdown replies = Inr markdown \<and>
   get again ''address'' = Some b \<and> get again ''name'' = Some n \<longrightarrow>
     describe_external_function bk entry w =
       (Inr markdown,
        w\<lparr>requests := requests w @ [DescribeExternalReq n a],
          cache_file := Some (map snd (load_cache w) @
            [\<lparr>rec_name = n, rec_markdown = markdown, rec_addresses = [a]\<rparr>])\<rparr>) \<and>
     map_of (load_cache (snd (describe_external_function bk entry w))) (lower n) =
       Some \<lparr>rec_name = n, rec_markdown = markdown, rec_addresses = [a]\<rparr> \<and>
     describe_external_function later again (snd (describe_external_function bk entry w)) =
       (Inr markdown,
        w\<lparr>requests := requests w @ [DescribeExternalReq n a],
          cache_file := Some (map snd (load_cache w) @
            [\<lparr>rec_name = n, rec_markdown = markdown,
              rec_addresses = (if b = a then [a] else [a, b])\<rparr>])\<rparr>) \<and>
     map_of (load_cache (snd (describe_external_function later again
         (snd (describe_external_function bk entry w))))) (lower n) =
       Some \<lparr>rec_name = n, rec_markdown = markdown,
         rec_addresses = (if b = a then [a] else [a, b])\<rparr>"
proof
  assume h: "get entry ''address'' = Some a \<and> get entry ''name'' = Some n \<and> n \<noteq> [] \<and>
   cache_lookup (load_cache w) n = None \<and>
   bk (requests w) (DescribeExternalReq n a) = Inr replies \<and>
   extract_markdown replies = Inr markdown \<and>
   get again ''address'' = Some b \<and> get again ''name'' = Some n"
  let ?r = "\<lparr>rec_name = n, rec_markdown = markdown, rec_addresses = [a]\<rparr>"
  let ?s = "\<lparr>rec_name = n, rec_markdown = markdown,
    rec_addresses = (if b = a then [a] else [a, b])\<rparr>"
  let ?q = "requests w @ [DescribeExternalReq n a]"
  have fresh: "lower n \<notin> fst ` set (load_cache w)"
    using h by (simp add: cache_lookup_def map_of_None_fresh)
  have none: "map_of (load_cache w) (lower n) = None"
    using h by (simp add: cache_lookup_def)
  have first: "describe_external_function bk entry w =
      (Inr markdown, w\<lparr>requests := ?q, cache_file := Some (map snd (load_cache w) @ [?r])\<rparr>)"
    using h by (simp add: describe_external_present)
  have second: "describe_external_function later again
      (snd (describe_external_function bk entry w)) =
      (Inr markdown, w\<lparr>requests := ?q, cache_file := Some (map snd (load_cache w) @ [?s])\<rparr>)"
    using h external_second_call [of entry a n w bk replies markdown again b later] by simp
  have "load_cache (w\<lparr>requests := ?q, cache_file := Some (map snd (load_cache w) @ [?r])\<rparr>) =
      load_cache w @ [(lower (rec_name ?r), ?r)]"
    using h fresh by (intro reload_appended) simp_all
  then have stored: "map_of (load_cache (snd (describe_external_function bk entry w))) (lower n) =
      Some ?r"
    using none by (simp add: first map_add_def)
  have "load_cache (w\<lparr>requests := ?q, cache_file := Some (map snd (load_cache w) @ [?s])\<rparr>) =
      load_cache w @ [(lower (rec_name ?s), ?s)]"
    using h fresh by (intro reload_appended) simp_all
  then have kept: "map_of (load_cache (snd (describe_external_function later again
      (snd (describe_external_function bk entry w))))) (lower n) = Some ?s"
    using none by (simp add: second map_add_def)
  from first stored second kept
  show "describe_external_function bk entry w =
       (Inr markdown,
        w\<lparr>requests := requests w @ [DescribeExternalReq n a],
          cache_file := Some (map snd (load_cache w) @
            [\<lparr>rec_name = n, rec_markdown = markdown, rec_addresses = [a]\<rparr>])\<rparr>) \<and>
     map_of (load_cache (snd (describe_external_function bk entry w))) (lower n) =
       Some \<lparr>rec_name = n, rec_markdown = markdown, rec_addresses = [a]\<rparr> \<and>
     describe_external_function later again (snd (describe_external_function bk entry w)) =
       (Inr markdown,
        w\<lparr>requests := requests w @ [DescribeExternalReq n a],
          cache_file := Some (map snd (load_cache w) @
            [\<lparr>rec_name = n, rec_markdown = markdown,
              rec_addresses = (if b = a then [a] else [a, b])\<rparr>])\<rparr>) \<and>
     map_of (load_cache (snd (describe_external_function later again
         (snd (describe_external_function bk entry w))))) (lower n) =
       Some \<lparr>rec_name = n, rec_markdown = markdown,
         rec_addresses = (if b = a then [a] else [a, b])\<rparr>"
    by (intro conjI)
qed

theorem external_description_cache_witness:
  "describe_external_function silent_backend [(''address'', ''B''), (''name'', ''MemCpy'')]
     (snd (describe_external_function fresh_backend [(''address'', ''A''), (''name'', ''MemCpy'')]
        empty_world)) =
     (Inr ''fresh'',
      empty_world\<lparr>requests := [DescribeExternalReq ''MemCpy'' ''A''],
        cache_file := Some [\<lparr>rec_name = ''MemCpy'', rec_markdown = ''fresh'',
          rec_addresses = [''A'', ''B'']\<rparr>]\<rparr>) \<and>
   describe_external_function silent_backend [(''address'', ''A''), (''name'', ''MemCpy'')]
     (snd (describe_external_function fresh_backend [(''address'', ''A''), (''name'', ''MemCpy'')]
        empty_world)) =
     (Inr ''fresh'',
      empty_world\<lparr>requests := [DescribeExternalReq ''MemCpy'' ''A''],
        cache_file := Some [\<lparr>rec_name = ''MemCpy'', rec_markdown = ''fresh'',
          rec_addresses = [''A'']\<rparr>]\<rparr>) \<and>
   map_of (load_cache (snd (describe_external_function fresh_backend
     [(''address'', ''A''), (''name'', ''MemCpy'')] empty_world))) ''memcpy'' =
     Some \<lparr>rec_name = ''MemCpy'', rec_markdown = ''fresh'', rec_addresses = [''A'']\<rparr>"
proof -
  have m: "cache_lookup (load_cache empty_world) ''MemCpy'' = None" "requests empty_world = []"
    "load_cache empty_world = []"
    by (simp_all add: empty_world_def cache_lookup_def load_cache_def)
  have x: "extract_markdown [assistant_msg ''fresh''] = Inr ''fresh''"
    by (simp add: extract_markdown_def assistant_contents_def assistant_msg_def get_def
        strip_def is_space_def)
  have k: "lower ''MemCpy'' = ''memcpy''"
    by (simp add: lower_def lower_char_def)
  have ab: "describe_external_function silent_backend [(''address'', ''B''), (''name'', ''MemCpy'')]
     (snd (describe_external_function fresh_backend [(''address'', ''A''), (''name'', ''MemCpy'')]
        empty_world)) =
     (Inr ''fresh'',
      empty_world\<lparr>requests := [DescribeExternalReq ''MemCpy'' ''A''],
        cache_file := Some [\<lparr>rec_name = ''MemCpy'', rec_markdown = ''fresh'',
          rec_addresses = [''A'', ''B'']\<rparr>]\<rparr>)"
    using m x
      external_description_cache [where entry = "[(''address'', ''A''), (''name'', ''MemCpy'')]"
        and a = "''A''" and n = "''MemCpy''" and w = empty_world and bk = fresh_backend
        and replies = "[assistant_msg ''fresh'']" and markdown = "''fresh''"
        and again = "[(''address'', ''B''), (''name'', ''MemCpy'')]" and b = "''B''"
        and later = silent_backend, THEN mp, THEN conjunct2, THEN conjunct2, THEN conjunct1]
    by (simp add: get_def fresh_backend_def)
  have aa: "describe_external_function silent_backend [(''address'', ''A''), (''name'', ''MemCpy'')]
     (snd (describe_external_function fresh_backend [(''address'', ''A''), (''name'', ''MemCpy'')]
        empty_world)) =
     (Inr ''fresh'',
      empty_world\<lparr>requests := [DescribeExternalReq ''MemCpy'' ''A''],
        cache_file := Some [\<lparr>rec_name = ''MemCpy'', rec_markdown = ''fresh'',
          rec_addresses = [''A'']\<rparr>]\<rparr>) \<and>
   map_of (load_cache (snd (describe_external_function fresh_backend
     [(''address'', ''A''), (''name'', ''MemCpy'')] empty_world))) ''memcpy'' =
     Some \<lparr>rec_name = ''MemCpy'', rec_markdown = ''fresh'', rec_addresses = [''A'']\<rparr>"
  proof -
    have "get [(''address'', ''A''), (''name'', ''MemCpy'')] ''address'' = Some ''A'' \<and>
      get [(''address'', ''A''), (''name'', ''MemCpy'')] ''name'' = Some ''MemCpy'' \<and>
      ''MemCpy'' \<noteq> [] \<and> cache_lookup (load_cache empty_world) ''MemCpy'' = None \<and>
      fresh_backend (requests empty_world) (DescribeExternalReq ''MemCpy'' ''A'') =
        Inr [assistant_msg ''fresh''] \<and>
      extract_markdown [assistant_msg ''fresh''] = Inr ''fresh'' \<and>
      get [(''address'', ''A''), (''name'', ''MemCpy'')] ''address'' = Some ''A'' \<and>
      get [(''address'', ''A''), (''name'', ''MemCpy'')] ''name'' = Some ''MemCpy''"
      using m x by (simp add: get_def fresh_backend_def)
    note t = external_description_cache [where entry = "[(''address'', ''A''), (''name'', ''MemCpy'')]"
        and a = "''A''" and n = "''MemCpy''" and w = empty_world and bk = fresh_backend
        and replies = "[assistant_msg ''fresh'']" and markdown = "''fresh''"
        and again = "[(''address'', ''A''), (''name'', ''MemCpy'')]" and b = "''A''"
        and later = silent_backend, THEN mp, OF this]
    have s1: "describe_external_function silent_backend [(''address'', ''A''), (''name'', ''MemCpy'')]
       (snd (describe_external_function fresh_backend [(''address'', ''A''), (''name'', ''MemCpy'')]
          empty_world)) =
       (Inr ''fresh'',
        empty_world\<lparr>requests := [DescribeExternalReq ''MemCpy'' ''A''],
          cache_file := Some [\<lparr>rec_name = ''MemCpy'', rec_markdown = ''fresh'',
            rec_addresses = [''A'']\<rparr>]\<rparr>)"
      using t [THEN conjunct2, THEN conjunct2, THEN conjunct1] m by simp
    have s2: "map_of (load_cache (snd (describe_external_function fresh_backend
       [(''address'', ''A''), (''name'', ''MemCpy'')] empty_world))) ''memcpy'' =
       Some \<lparr>rec_name = ''MemCpy'', rec_markdown = ''fresh'', rec_addresses = [''A'']\<rparr>"
      using t [THEN conjunct2, THEN conjunct1] k by simp
    from s1 s2 show ?thesis by (intro conjI)
  qed
  from ab aa show ?thesis by (intro conjI) simp_all
qed

section \<open>Properties of the streamed reply\<close>

lemma step_is_answering:
  "is_answering (stream_step st c) = (is_answering st \<or> answer_fragment c \<noteq> [])"
  by (simp add: stream_step_def answer_fragment_def Let_def split: list.splits option.splits)

lemma step_reasoning_parts:
  "reasoning_parts (stream_step st c) =
     reasoning_parts st @ (if reasoning_fragment c = [] then [] else [reasoning_fragment c])"
  by (simp add: stream_step_def reasoning_fragment_def Let_def split: list.splits option.splits)

lemma step_answer_parts:
  "answer_parts (stream_step st c) =
     answer_parts st @ (if answer_fragment c = [] then [] else [answer_fragment c])"
  by (simp add: stream_step_def answer_fragment_def Let_def split: list.splits option.splits)

lemma step_printed_answering:
  "is_answering st \<Longrightarrow> printed (stream_step st c) = printed st @ answering_echo c"
  by (simp add: stream_step_def answer_fragment_def answering_echo_def Let_def
      split: list.splits option.splits)

lemma loop_is_answering:
  "is_answering (stream_loop st chunks) =
     (is_answering st \<or> (\<exists>c \<in> set chunks. answer_fragment c \<noteq> []))"
  unfolding stream_loop_def
  by (induction chunks arbitrary: st) (auto simp: step_is_answering)

lemma loop_reasoning_parts:
  "reasoning_parts (stream_loop st chunks) =
     reasoning_parts st @ filter (\<lambda>s. s \<noteq> []) (map reasoning_fragment chunks)"
  unfolding stream_loop_def
  by (induction chunks arbitrary: st) (auto simp: step_reasoning_parts)

lemma loop_answer_parts:
  "answer_parts (stream_loop st chunks) =
     answer_parts st @ filter (\<lambda>s. s \<noteq> []) (map answer_fragment chunks)"
  unfolding stream_loop_def
  by (induction chunks arbitrary: st) (auto simp: step_answer_parts)

lemma loop_printed_answering:
  "is_answering st \<Longrightarrow>
   printed (stream_loop st chunks) = printed st @ concat (map answering_echo chunks)"
  unfolding stream_loop_def
  by (induction chunks arbitrary: st) (auto simp: step_printed_answering step_is_answering)

lemma step_printed_thinking:
  "\<not> is_answering st \<Longrightarrow> answer_fragment c = [] \<Longrightarrow>
   printed (stream_step st c) = printed st @ thinking_echo c"
  by (auto simp: stream_step_def answer_fragment_def reasoning_fragment_def thinking_echo_def
      Let_def split: list.splits option.splits)

lemma loop_printed_thinking:
  "\<not> is_answering st \<Longrightarrow> \<forall>c \<in> set chunks. answer_fragment c = [] \<Longrightarrow>
   printed (stream_loop st chunks) = printed st @ concat (map thinking_echo chunks)"
  unfolding stream_loop_def
  by (induction chunks arbitrary: st) (auto simp: step_printed_thinking step_is_answering)

lemma example_state:
  "stream_loop stream_start example_chunks =
     \<lparr>printed = [stream_banner, thinking_header, ''why '', ''so'', answer_header, ''yes''],
      reasoning_parts = [''why '', ''so'', ''ignored''],
      answer_parts = [''yes''],
      is_answering = True\<rparr>"
  by (simp add: example_chunks_def stream_loop_def stream_step_def stream_start_def
      reasoning_chunk_def answer_chunk_def Let_def)

lemma example_texts:
  "reasoning_text (stream_loop stream_start example_chunks) = ''why soignored''"
  "answer_text (stream_loop stream_start example_chunks) = ''yes''"
  by (simp_all add: example_state reasoning_text_def answer_text_def strip_def is_space_def)

text \<open>
  Claim C8 as stated fails on its own example: the reasoning text of the four chunks is
  the whole accumulator, \<open>why soignored\<close>, not \<open>why so\<close>.
\<close>

theorem stream_example_reasoning_text:
  "reasoning_text (snd (assemble_stream example_chunks)) = ''why soignored'' \<and>
   reasoning_text (snd (assemble_stream example_chunks)) \<noteq> ''why so''"
  by (simp add: assemble_stream_def Let_def example_state reasoning_text_def strip_def is_space_def)

text \<open>
  Claim C8, amended: the assembler starts in the thinking state and is in the answering
  state after exactly those chunk sequences that hold a chunk with a non-empty answer
  fragment; every non-empty reasoning fragment is appended to the reasoning accumulator
  and every non-empty answer fragment to the answer accumulator, in order, whatever the
  state; while thinking, a chunk without an answer fragment has its reasoning fragment
  echoed, and once answering no reasoning fragment is echoed. For the chunk sequence of
  the example the reasoning text is \<open>why soignored\<close> and the answer text \<open>yes\<close>, the
  accumulator holds the three reasoning fragments, and \<open>ignored\<close> is not echoed.
\<close>

theorem stream_assembler_channels:
  "\<not> is_answering stream_start \<and>
   is_answering (stream_loop stream_start chunks) =
     (\<exists>c \<in> set chunks. answer_fragment c \<noteq> []) \<and>
   reasoning_parts (stream_loop stream_start chunks) =
     filter (\<lambda>s. s \<noteq> []) (map reasoning_fragment chunks) \<and>
   answer_parts (stream_loop stream_start chunks) =
     filter (\<lambda>s. s \<noteq> []) (map answer_fragment chunks) \<and>
   (\<not> is_answering st \<and> (\<forall>c \<in> set rest. answer_fragment c = []) \<longrightarrow>
      printed (stream_loop st rest) = printed st @ concat (map thinking_echo rest)) \<and>
   (is_answering st \<longrightarrow>
      printed (stream_loop st rest) = printed st @ concat (map answering_echo rest)) \<and>
   reasoning_text (snd (assemble_stream example_chunks)) = ''why soignored'' \<and>
   answer_text (snd (assemble_stream example_chunks)) = ''yes'' \<and>
   reasoning_parts (snd (assemble_stream example_chunks)) = [''why '', ''so'', ''ignored''] \<and>
   printed (snd (assemble_stream example_chunks)) =
     [stream_banner, thinking_header, ''why '', ''so'', answer_header, ''yes'', stream_done]"
proof (intro conjI impI)
  show "\<not> is_answering stream_start"
    by (simp add: stream_start_def)
  show "is_answering (stream_loop stream_start chunks) =
      (\<exists>c \<in> set chunks. answer_fragment c \<noteq> [])"
    by (simp add: loop_is_answering stream_start_def)
  show "reasoning_parts (stream_loop stream_start chunks) =
      filter (\<lambda>s. s \<noteq> []) (map reasoning_fragment chunks)"
    by (simp add: loop_reasoning_parts stream_start_def)
  show "answer_parts (stream_loop stream_start chunks) =
      filter (\<lambda>s. s \<noteq> []) (map answer_fragment chunks)"
    by (simp add: loop_answer_parts stream_start_def)
  show "printed (stream_loop st rest) = printed st @ concat (map thinking_echo rest)"
    if "\<not> is_answering st \<and> (\<forall>c \<in> set rest. answer_fragment c = [])"
    using that by (simp add: loop_printed_thinking)
  show "printed (stream_loop st rest) = printed st @ concat (map answering_echo rest)"
    if "is_answering st"
    using that by (rule loop_printed_answering)
  show "reasoning_text (snd (assemble_stream example_chunks)) = ''why soignored''"
    using example_texts(1) by (simp add: assemble_stream_def Let_def reasoning_text_def)
  show "answer_text (snd (assemble_stream example_chunks)) = ''yes''"
    using example_texts(2) by (simp add: assemble_stream_def Let_def answer_text_def)
  show "reasoning_parts (snd (assemble_stream example_chunks)) = [''why '', ''so'', ''ignored'']"
    by (simp add: assemble_stream_def Let_def example_state)
  show "printed (snd (assemble_stream example_chunks)) =
      [stream_banner, thinking_header, ''why '', ''so'', answer_header, ''yes'', stream_done]"
    by (simp add: assemble_stream_def Let_def example_state)
qed

theorem stream_assembler_channels_witness:
  "is_answering (stream_loop stream_start [answer_chunk ''yes'']) \<and>
   printed (stream_loop (stream_loop stream_start [answer_chunk ''yes'']) [reasoning_chunk ''ignored'']) =
     printed (stream_loop stream_start [answer_chunk ''yes'']) \<and>
   \<not> is_answering stream_start \<and>
   answer_fragment (reasoning_chunk ''why '') = [] \<and>
   printed (stream_loop stream_start [reasoning_chunk ''why '']) = printed stream_start @ [''why '']"
proof -
  have a: "is_answering (stream_loop stream_start [answer_chunk ''yes''])"
    by (simp add: stream_loop_def stream_step_def stream_start_def answer_chunk_def Let_def)
  have e: "answering_echo (reasoning_chunk ''ignored'') = []"
    by (simp add: answering_echo_def answer_fragment_def reasoning_chunk_def)
  have n: "\<not> is_answering stream_start"
    by (simp add: stream_start_def)
  have f: "answer_fragment (reasoning_chunk ''why '') = []"
    by (simp add: answer_fragment_def reasoning_chunk_def)
  have t: "thinking_echo (reasoning_chunk ''why '') = [''why '']"
    by (simp add: thinking_echo_def reasoning_fragment_def reasoning_chunk_def)
  show ?thesis
    using a e n f t
      stream_assembler_channels [of "[answer_chunk ''yes'']"
        "stream_loop stream_start [answer_chunk ''yes'']" "[reasoning_chunk ''ignored'']"]
      stream_assembler_channels [of "[]" stream_start "[reasoning_chunk ''why '']"]
    by simp
qed

subsection \<open>Properties of the deduplicator\<close>

lemma dedupe_loop_first_seen:
  "dedupe_loop nk ak entries seen deduped =
     deduped @ first_seen (entry_key nk ak)
       (filter (\<lambda>e. case entry_key nk ak e of None \<Rightarrow> False | Some k \<Rightarrow> k \<notin> seen) entries)"
proof (induction entries arbitrary: seen deduped)
  case Nil
  show ?case by simp
next
  case (Cons e es)
  show ?case
  proof (cases "entry_key nk ak e")
    case None
    then have "dedupe_loop nk ak (e # es) seen deduped = dedupe_loop nk ak es seen deduped"
      by (auto simp: entry_key_def split: option.splits if_splits)
    with None Cons.IH show ?thesis by simp
  next
    case (Some k)
    then obtain name addr where na: "get e nk = Some name" "get e ak = Some addr"
      "name \<noteq> []" "addr \<noteq> []" "k = (lower name, lower addr)"
      by (auto simp: entry_key_def split: option.splits if_splits)
    show ?thesis
    proof (cases "k \<in> seen")
      case True
      with na have "dedupe_loop nk ak (e # es) seen deduped = dedupe_loop nk ak es seen deduped"
        by simp
      with True Some Cons.IH show ?thesis by simp
    next
      case False
      with na have step: "dedupe_loop nk ak (e # es) seen deduped =
          dedupe_loop nk ak es (insert k seen) (deduped @ [e])"
        by simp
      have flt: "filter (\<lambda>y. entry_key nk ak y \<noteq> entry_key nk ak e)
            (filter (\<lambda>e. case entry_key nk ak e of None \<Rightarrow> False | Some k \<Rightarrow> k \<notin> seen) es) =
          filter (\<lambda>e. case entry_key nk ak e of None \<Rightarrow> False | Some k' \<Rightarrow> k' \<notin> insert k seen) es"
        using Some by (auto intro!: filter_cong split: option.splits)
      have lhs: "dedupe_loop nk ak (e # es) seen deduped =
          (deduped @ [e]) @ first_seen (entry_key nk ak)
            (filter (\<lambda>e. case entry_key nk ak e of None \<Rightarrow> False | Some k' \<Rightarrow> k' \<notin> insert k seen) es)"
        unfolding step by (rule Cons.IH)
      have rhs: "filter (\<lambda>e. case entry_key nk ak e of None \<Rightarrow> False | Some k \<Rightarrow> k \<notin> seen) (e # es) =
          e # filter (\<lambda>e. case entry_key nk ak e of None \<Rightarrow> False | Some k \<Rightarrow> k \<notin> seen) es"
        using False Some by simp
      show ?thesis
        unfolding lhs rhs first_seen.simps flt by simp
    qed
  qed
qed

lemma dedupe_functions_first_seen:
  "dedupe_functions entries nk ak = first_seen (entry_key nk ak) (filter (usable nk ak) entries)"
proof -
  have "(\<lambda>e. case entry_key nk ak e of None \<Rightarrow> False | Some k \<Rightarrow> k \<notin> {}) = usable nk ak"
    by (auto simp: usable_def fun_eq_iff split: option.splits)
  then show ?thesis
    by (simp add: dedupe_functions_def dedupe_loop_first_seen)
qed

lemma first_seen_subset: "set (first_seen f xs) \<subseteq> set xs"
proof (induction f xs rule: first_seen.induct)
  case (1 f)
  show ?case by simp
next
  case (2 f x xs)
  then show ?case by auto
qed

lemma first_seen_distinct: "distinct (map f (first_seen f xs))"
proof (induction f xs rule: first_seen.induct)
  case (1 f)
  show ?case by simp
next
  case (2 f x xs)
  have "f x \<notin> f ` set (first_seen f (filter (\<lambda>y. f y \<noteq> f x) xs))"
    using first_seen_subset [of f "filter (\<lambda>y. f y \<noteq> f x) xs"] by auto
  with 2 show ?case by simp
qed

text \<open>
  Claim C7 as stated fails on a record whose name field is present but empty: both fields
  are there, and the record is dropped.
\<close>

theorem dedupe_drops_empty_field:
  "fields_present ''func_name'' ''address'' [(''func_name'', ''''), (''address'', ''0x1'')] \<and>
   dedupe_functions [[(''func_name'', ''''), (''address'', ''0x1'')]] ''func_name'' ''address'' = []"
  by (simp add: fields_present_def dedupe_functions_def get_def)

text \<open>
  Claim C7, amended: the deduplicator returns, in first-seen order, the records whose name
  and address fields are both present and not empty, a later record whose
  (lowercased name, lowercased address) key repeats an earlier one being removed; a record
  in which either field is missing or empty is dropped without an error. The keys of the
  result are pairwise distinct, and the three records of the specification's example
  give its two.
\<close>

theorem dedupe_functions_spec:
  "dedupe_functions entries nk ak = first_seen (entry_key nk ak) (filter (usable nk ak) entries) \<and>
   usable nk ak e =
     (\<exists>name addr. get e nk = Some name \<and> name \<noteq> [] \<and> get e ak = Some addr \<and> addr \<noteq> []) \<and>
   distinct (map (entry_key nk ak) (dedupe_functions entries nk ak)) \<and>
   dedupe_functions
     [[(''n'', ''f''), (''a'', ''0x1'')], [(''n'', ''f''), (''a'', ''0x1'')], [(''n'', ''g''), (''a'', ''0x2'')]]
     ''n'' ''a'' =
     [[(''n'', ''f''), (''a'', ''0x1'')], [(''n'', ''g''), (''a'', ''0x2'')]]"
proof (intro conjI)
  show "dedupe_functions entries nk ak = first_seen (entry_key nk ak) (filter (usable nk ak) entries)"
    by (rule dedupe_functions_first_seen)
  show "usable nk ak e =
     (\<exists>name addr. get e nk = Some name \<and> name \<noteq> [] \<and> get e ak = Some addr \<and> addr \<noteq> [])"
    by (auto simp: usable_def entry_key_def split: option.splits)
  show "distinct (map (entry_key nk ak) (dedupe_functions entries nk ak))"
    by (simp add: dedupe_functions_first_seen first_seen_distinct)
  show "dedupe_functions
     [[(''n'', ''f''), (''a'', ''0x1'')], [(''n'', ''f''), (''a'', ''0x1'')], [(''n'', ''g''), (''a'', ''0x2'')]]
     ''n'' ''a'' =
     [[(''n'', ''f''), (''a'', ''0x1'')], [(''n'', ''g''), (''a'', ''0x2'')]]"
    by (simp add: dedupe_functions_def get_def lower_def lower_char_def)
qed

theorem dedupe_functions_spec_witness:
  "first_seen (entry_key ''n'' ''a'') (filter (usable ''n'' ''a'')
     [[(''n'', ''F''), (''a'', ''0xA'')], [(''a'', ''0x1'')], [(''n'', ''f''), (''a'', ''0xa'')]]) =
   [[(''n'', ''F''), (''a'', ''0xA'')]]"
proof -
  have "dedupe_functions
     [[(''n'', ''F''), (''a'', ''0xA'')], [(''a'', ''0x1'')], [(''n'', ''f''), (''a'', ''0xa'')]] ''n'' ''a'' =
     [[(''n'', ''F''), (''a'', ''0xA'')]]"
    by (simp add: dedupe_functions_def get_def lower_def lower_char_def)
  then show ?thesis
    using dedupe_functions_spec
      [of "[[(''n'', ''F''), (''a'', ''0xA'')], [(''a'', ''0x1'')], [(''n'', ''f''), (''a'', ''0xa'')]]" "''n''" "''a''"]
    by simp
qed

section \<open>The orchestration of pipeline.py\<close>

lemma child_loop_acc:
  "child_loop st children secs mcs w =
     ((secs @ map section_of (described (child_outcomes st children w)),
       mcs @ map mem_code_of (filter has_mem_code (described (child_outcomes st children w)))),
      after_children st children w)"
proof (induction children arbitrary: secs mcs w)
  case Nil
  show ?case by simp
next
  case (Cons child children)
  obtain r w1 where d: "describe_child st child w = (r, w1)"
    by (cases "describe_child st child w")
  show ?case
  proof (cases r)
    case (Inl e)
    then show ?thesis using d Cons.IH [of secs mcs w1] by simp
  next
    case (Inr dm)
    obtain desc mem_code where dm: "dm = (desc, mem_code)" by (cases dm)
    show ?thesis
      using d Inr dm
        Cons.IH [of "secs @ [format_child_section child desc]"
          "if mem_code \<noteq> [] then mcs @ [child_mem_code child mem_code] else mcs" w1]
      by (simp add: section_of_def has_mem_code_def mem_code_of_def)
  qed
qed

lemma hd_join: "x \<noteq> [] \<Longrightarrow> hd (join sep (x # xs)) = hd x"
  by (cases xs) simp_all

lemma hd_section: "hd (format_child_section child desc) = CHR ''#''"
  by (simp add: format_child_section_def Let_def)

lemma section_nonempty: "format_child_section child desc \<noteq> []"
  by (simp add: format_child_section_def Let_def)

lemma hd_no_children: "hd no_children_text = CHR 0xEF"
  by (simp add: no_children_text_def)

lemma child_block_placeholder:
  "(child_block (map section_of ds) = no_children_text) = (ds = [])"
proof (cases ds)
  case Nil
  then show ?thesis by (simp add: child_block_def)
next
  case (Cons d rest)
  have "hd (child_block (map section_of (d # rest))) = CHR ''#''"
    by (simp add: child_block_def section_of_def hd_join section_nonempty hd_section)
  then have "child_block (map section_of (d # rest)) \<noteq> no_children_text"
    using hd_no_children by auto
  then show ?thesis using Cons by simp
qed

lemma child_loop_fst:
  "fst (child_loop st children [] [] w) =
     (map section_of (described (child_outcomes st children w)),
      map mem_code_of (filter has_mem_code (described (child_outcomes st children w))))"
  by (simp add: child_loop_acc)

lemma process_major_function_eq:
  assumes "get handler ''address'' = Some a" "get handler ''func_name'' = Some f"
  shows "process_major_function st caller handler w =
    (let target = [(''address'', a), (''func_name'', f)];
         enumerated = step_list_subfunctions st target w;
         children = (case fst enumerated of Inl e \<Rightarrow> [] | Inr listed \<Rightarrow> listed);
         ds = described (child_outcomes st children (snd enumerated));
         block = child_block (map section_of ds);
         codes = map mem_code_of (filter has_mem_code ds);
         parent = analyze_parent_memory st target (after_children st children (snd enumerated));
         irp = analyze_irp_memory_section st target
                 (Some (combined_context block (fst parent) codes)) [] (snd parent)
     in (Inr (strip (join ''\<newline>''
                (report_lines caller handler block (fst parent) (fst (fst irp)))),
              snd (fst irp), codes),
         snd irp))"
proof -
  obtain r w1 where e: "step_list_subfunctions st [(''address'', a), (''func_name'', f)] w = (r, w1)"
    by (cases "step_list_subfunctions st [(''address'', a), (''func_name'', f)] w")
  show ?thesis
    using assms e
    by (cases r)
      (simp_all add: process_major_function_def Let_def child_loop_acc case_prod_beta)
qed













text \<open>
  Claim C6 as stated fails for an external child: the description of \<open>memcpy\<close> carries the
  marker \<open># MEM #\<close>, and \<open>describe_child\<close> returns it as it is after the one call that
  describes the child, although the analysis of the memory parameters of \<open>memcpy\<close> would
  have given a result.
\<close>

theorem external_marker_not_analyzed:
  "describe_child (scripted driver) child_memcpy [] =
     (Inr (''# MEM # copies n bytes'', []),
      [DescribeExternal [(''address'', ''0x9000''), (''name'', ''memcpy'')]]) \<and>
   has_memory_marker ''# MEM # copies n bytes'' \<and>
   step_analyze_memory_param_markdown (scripted driver)
     [(''address'', ''0x9000''), (''func_name'', ''memcpy'')]
     [DescribeExternal [(''address'', ''0x9000''), (''name'', ''memcpy'')]] =
     (Inr ''a1 is the destination'',
      [DescribeExternal [(''address'', ''0x9000''), (''name'', ''memcpy'')],
       MemoryParam [(''address'', ''0x9000''), (''func_name'', ''memcpy'')]])"
  by (simp add: describe_child_def scripted_def driver_def child_memcpy_def answer_def get_def
      has_memory_marker_def MEMORY_MARKERS_def)

text \<open>
  Claim C6, amended: for every child that is not of type \<open>external\<close> and whose
  description contains one of the two markers \<open># MEM #\<close> and \<open># MAP #\<close>, one more call
  analyses the memory parameters of that same child (its address, and its name as
  \<open>func_name\<close>), and the markdown of the analysis is appended after a line \<open>---\<close> to the
  description that \<open>describe_child\<close> returns, the one the section of the child is made
  of; a description with neither marker triggers no such call. For a child of type
  \<open>external\<close> no such call is made, whatever its description contains. A child is
  described by the external step when its type is \<open>external\<close> and by the internal step
  otherwise, and an exception of any of these calls is the outcome of \<open>describe_child\<close>.
\<close>

theorem describe_child_memory_marker:
  "(get child ''type'' = Some ''external'' \<and> get child ''address'' = Some a \<and>
    get child ''name'' = Some n \<longrightarrow>
      describe_child st child w =
        (case step_describe_external_function st [(''address'', a), (''name'', n)] w of
           (Inl e, w1) \<Rightarrow> (Inl e, w1)
         | (Inr desc, w1) \<Rightarrow> (Inr (desc, []), w1))) \<and>
   (get child ''type'' \<noteq> Some ''external'' \<and> get child ''address'' = Some a \<and>
    get child ''name'' = Some n \<longrightarrow>
      describe_child st child w =
        (case step_describe_internal_function st [(''address'', a), (''name'', n)] w of
           (Inl e, w1) \<Rightarrow> (Inl e, w1)
         | (Inr desc, w1) \<Rightarrow>
             if contains ''# MEM #'' desc \<or> contains ''# MAP #'' desc then
               (case step_analyze_memory_param_markdown st
                       [(''address'', a), (''func_name'', n)] w1 of
                  (Inl e, w2) \<Rightarrow> (Inl e, w2)
                | (Inr mem_md, w2) \<Rightarrow>
                    (Inr (desc @ ''\<newline>\<newline>---\<newline>'' @ mem_md, mem_md), w2))
             else (Inr (desc, []), w1))) \<and>
   (describe_child st child w = (Inr (description, mem_code), w') \<longrightarrow>
      child_loop st [child] [] [] w =
        (([format_child_section child description],
          if mem_code \<noteq> [] then [child_mem_code child mem_code] else []),
         w'))"
proof (intro conjI impI)
  assume "get child ''type'' = Some ''external'' \<and> get child ''address'' = Some a \<and>
    get child ''name'' = Some n"
  then show "describe_child st child w =
        (case step_describe_external_function st [(''address'', a), (''name'', n)] w of
           (Inl e, w1) \<Rightarrow> (Inl e, w1)
         | (Inr desc, w1) \<Rightarrow> (Inr (desc, []), w1))"
    by (simp add: describe_child_def)
next
  assume "get child ''type'' \<noteq> Some ''external'' \<and> get child ''address'' = Some a \<and>
    get child ''name'' = Some n"
  then show "describe_child st child w =
        (case step_describe_internal_function st [(''address'', a), (''name'', n)] w of
           (Inl e, w1) \<Rightarrow> (Inl e, w1)
         | (Inr desc, w1) \<Rightarrow>
             if contains ''# MEM #'' desc \<or> contains ''# MAP #'' desc then
               (case step_analyze_memory_param_markdown st
                       [(''address'', a), (''func_name'', n)] w1 of
                  (Inl e, w2) \<Rightarrow> (Inl e, w2)
                | (Inr mem_md, w2) \<Rightarrow>
                    (Inr (desc @ ''\<newline>\<newline>---\<newline>'' @ mem_md, mem_md), w2))
             else (Inr (desc, []), w1))"
    by (simp add: describe_child_def has_memory_marker_def MEMORY_MARKERS_def
        split: prod.splits sum.splits)
next
  assume "describe_child st child w = (Inr (description, mem_code), w')"
  then show "child_loop st [child] [] [] w =
        (([format_child_section child description],
          if mem_code \<noteq> [] then [child_mem_code child mem_code] else []),
         w')"
    by simp
qed

theorem describe_child_memory_marker_witness:
  "describe_child (scripted driver) child_memcpy [] =
     (Inr (''# MEM # copies n bytes'', []),
      [DescribeExternal [(''address'', ''0x9000''), (''name'', ''memcpy'')]]) \<and>
   describe_child (scripted driver) child_map [] =
     (Inr (''# MAP # maps a section\<newline>\<newline>---\<newline>a1 is the mapped address'',
           ''a1 is the mapped address''),
      [DescribeInternal [(''address'', ''0x1200''), (''name'', ''sub_1200'')],
       MemoryParam [(''address'', ''0x1200''), (''func_name'', ''sub_1200'')]]) \<and>
   describe_child (scripted driver) child_plain [] =
     (Inr (''returns a status'', []),
      [DescribeInternal [(''address'', ''0x1300''), (''name'', ''sub_1300'')]]) \<and>
   child_loop (scripted driver) [child_map] [] [] [] =
     (([format_child_section child_map
          ''# MAP # maps a section\<newline>\<newline>---\<newline>a1 is the mapped address''],
       [child_mem_code child_map ''a1 is the mapped address'']),
      [DescribeInternal [(''address'', ''0x1200''), (''name'', ''sub_1200'')],
       MemoryParam [(''address'', ''0x1200''), (''func_name'', ''sub_1200'')]])"
proof -
  have ext: "describe_child (scripted driver) child_memcpy [] =
     (Inr (''# MEM # copies n bytes'', []),
      [DescribeExternal [(''address'', ''0x9000''), (''name'', ''memcpy'')]])"
    using describe_child_memory_marker [where st = "scripted driver" and child = child_memcpy
        and a = "''0x9000''" and n = "''memcpy''" and w = "[]", THEN conjunct1]
    by (simp add: scripted_def driver_def child_memcpy_def answer_def get_def)
  have marked: "describe_child (scripted driver) child_map [] =
     (Inr (''# MAP # maps a section\<newline>\<newline>---\<newline>a1 is the mapped address'',
           ''a1 is the mapped address''),
      [DescribeInternal [(''address'', ''0x1200''), (''name'', ''sub_1200'')],
       MemoryParam [(''address'', ''0x1200''), (''func_name'', ''sub_1200'')]])"
    using describe_child_memory_marker [where st = "scripted driver" and child = child_map
        and a = "''0x1200''" and n = "''sub_1200''" and w = "[]",
        THEN conjunct2, THEN conjunct1]
    by (simp add: scripted_def driver_def child_map_def answer_def get_def)
  have plain: "describe_child (scripted driver) child_plain [] =
     (Inr (''returns a status'', []),
      [DescribeInternal [(''address'', ''0x1300''), (''name'', ''sub_1300'')]])"
    using describe_child_memory_marker [where st = "scripted driver" and child = child_plain
        and a = "''0x1300''" and n = "''sub_1300''" and w = "[]",
        THEN conjunct2, THEN conjunct1]
    by (simp add: scripted_def driver_def child_plain_def answer_def get_def)
  have used: "child_loop (scripted driver) [child_map] [] [] [] =
     (([format_child_section child_map
          ''# MAP # maps a section\<newline>\<newline>---\<newline>a1 is the mapped address''],
       [child_mem_code child_map ''a1 is the mapped address'']),
      [DescribeInternal [(''address'', ''0x1200''), (''name'', ''sub_1200'')],
       MemoryParam [(''address'', ''0x1200''), (''func_name'', ''sub_1200'')]])"
    using marked
      describe_child_memory_marker [where st = "scripted driver" and child = child_map
        and w = "[]"
        and description =
          "''# MAP # maps a section\<newline>\<newline>---\<newline>a1 is the mapped address''"
        and mem_code = "''a1 is the mapped address''"
        and w' = "[DescribeInternal [(''address'', ''0x1200''), (''name'', ''sub_1200'')],
                   MemoryParam [(''address'', ''0x1200''), (''func_name'', ''sub_1200'')]]",
        THEN conjunct2, THEN conjunct2]
    by simp
  from ext marked plain used show ?thesis by (intro conjI)
qed

text \<open>
  Claim C10: when describing a child raises, the child is omitted from the caller's
  report. The sections of a caller are those of the children whose description returned,
  in the order of the enumeration, and nothing stands for a child whose description
  raised (nor is its memory code kept); the block of the children is the placeholder
  exactly when no child has a description, and it is this block that
  \<open>process_major_function\<close> puts into the context of the IRP analysis and into the report.
\<close>

theorem child_failure_omitted:
  "fst (child_loop st children [] [] w) =
     (map section_of (described (child_outcomes st children w)),
      map mem_code_of (filter has_mem_code (described (child_outcomes st children w)))) \<and>
   (child_block (map section_of (described (child_outcomes st children w))) = no_children_text) =
     (described (child_outcomes st children w) = []) \<and>
   (get handler ''address'' = Some a \<and> get handler ''func_name'' = Some f \<and>
    step_list_subfunctions st [(''address'', a), (''func_name'', f)] w = (Inr children, w1) \<longrightarrow>
      process_major_function st caller handler w =
        (let target = [(''address'', a), (''func_name'', f)];
             ds = described (child_outcomes st children w1);
             block = child_block (map section_of ds);
             codes = map mem_code_of (filter has_mem_code ds);
             parent = analyze_parent_memory st target (after_children st children w1);
             irp = analyze_irp_memory_section st target
                     (Some (combined_context block (fst parent) codes)) [] (snd parent)
         in (Inr (strip (join ''\<newline>''
                    (report_lines caller handler block (fst parent) (fst (fst irp)))),
                  snd (fst irp), codes),
             snd irp)))"
proof (intro conjI impI)
  show "fst (child_loop st children [] [] w) =
     (map section_of (described (child_outcomes st children w)),
      map mem_code_of (filter has_mem_code (described (child_outcomes st children w))))"
    by (rule child_loop_fst)
  show "(child_block (map section_of (described (child_outcomes st children w))) =
      no_children_text) = (described (child_outcomes st children w) = [])"
    by (rule child_block_placeholder)
next
  assume h: "get handler ''address'' = Some a \<and> get handler ''func_name'' = Some f \<and>
    step_list_subfunctions st [(''address'', a), (''func_name'', f)] w = (Inr children, w1)"
  then have k: "get handler ''address'' = Some a" "get handler ''func_name'' = Some f"
    by simp_all
  show "process_major_function st caller handler w =
        (let target = [(''address'', a), (''func_name'', f)];
             ds = described (child_outcomes st children w1);
             block = child_block (map section_of ds);
             codes = map mem_code_of (filter has_mem_code ds);
             parent = analyze_parent_memory st target (after_children st children w1);
             irp = analyze_irp_memory_section st target
                     (Some (combined_context block (fst parent) codes)) [] (snd parent)
         in (Inr (strip (join ''\<newline>''
                    (report_lines caller handler block (fst parent) (fst (fst irp)))),
                  snd (fst irp), codes),
             snd irp))"
    using h by (simp add: process_major_function_eq [OF k] Let_def)
qed

theorem child_failure_omitted_witness:
  "fst (child_loop (scripted driver) [child_memcpy, child_lost, child_map, child_plain] [] [] []) =
     ([format_child_section child_memcpy ''# MEM # copies n bytes'',
       format_child_section child_map
         ''# MAP # maps a section\<newline>\<newline>---\<newline>a1 is the mapped address'',
       format_child_section child_plain ''returns a status''],
      [child_mem_code child_map ''a1 is the mapped address'']) \<and>
   fst (child_loop (scripted driver) [child_lost] [] [] []) = ([], []) \<and>
   process_major_function (scripted driver) caller_c handler_c [] =
     (Inr (strip (join ''\<newline>''
             (report_lines caller_c handler_c no_children_text memory_failed_text
                ''irp of DispatchC'')),
           [[(''address'', ''0x3100''), (''func_name'', ''DispatchC'')]], []),
      [ListChildren [(''address'', ''0x3100''), (''func_name'', ''DispatchC'')],
       DescribeInternal [(''address'', ''0x1400''), (''name'', ''sub_1400'')],
       MemoryParam [(''address'', ''0x3100''), (''func_name'', ''DispatchC'')],
       IrpAccess [(''address'', ''0x3100''), (''func_name'', ''DispatchC'')]
         (Some (combined_context no_children_text memory_failed_text []))])"
proof -
  have four: "fst (child_loop (scripted driver) [child_memcpy, child_lost, child_map, child_plain]
       [] [] []) =
     ([format_child_section child_memcpy ''# MEM # copies n bytes'',
       format_child_section child_map
         ''# MAP # maps a section\<newline>\<newline>---\<newline>a1 is the mapped address'',
       format_child_section child_plain ''returns a status''],
      [child_mem_code child_map ''a1 is the mapped address''])"
    using child_failure_omitted [where st = "scripted driver"
        and children = "[child_memcpy, child_lost, child_map, child_plain]" and w = "[]",
        THEN conjunct1]
    by (simp add: describe_child_def scripted_def driver_def child_memcpy_def child_lost_def
        child_map_def child_plain_def answer_def get_def has_memory_marker_def
        MEMORY_MARKERS_def section_of_def mem_code_of_def has_mem_code_def)
  have none: "fst (child_loop (scripted driver) [child_lost] [] [] []) = ([], [])"
    using child_failure_omitted [where st = "scripted driver"
        and children = "[child_lost]" and w = "[]", THEN conjunct1]
    by (simp add: describe_child_def scripted_def driver_def child_lost_def answer_def get_def)
  have report: "process_major_function (scripted driver) caller_c handler_c [] =
     (Inr (strip (join ''\<newline>''
             (report_lines caller_c handler_c no_children_text memory_failed_text
                ''irp of DispatchC'')),
           [[(''address'', ''0x3100''), (''func_name'', ''DispatchC'')]], []),
      [ListChildren [(''address'', ''0x3100''), (''func_name'', ''DispatchC'')],
       DescribeInternal [(''address'', ''0x1400''), (''name'', ''sub_1400'')],
       MemoryParam [(''address'', ''0x3100''), (''func_name'', ''DispatchC'')],
       IrpAccess [(''address'', ''0x3100''), (''func_name'', ''DispatchC'')]
         (Some (combined_context no_children_text memory_failed_text []))])"
    using child_failure_omitted [where st = "scripted driver" and handler = handler_c
        and a = "''0x3100''" and f = "''DispatchC''" and w = "[]" and children = "[child_lost]"
        and caller = caller_c
        and ?w1.0 = "[ListChildren [(''address'', ''0x3100''), (''func_name'', ''DispatchC'')]]",
        THEN conjunct2, THEN conjunct2]
    by (simp add: describe_child_def scripted_def driver_def child_lost_def handler_c_def
        answer_def get_def format_get_def child_block_def analyze_parent_memory_def
        analyze_irp_memory_section_def Let_def)
  from four none report show ?thesis by (intro conjI)
qed



end
